theory Spec2Isabelle
  imports Complex_Main
begin

section \<open>Strings\<close>

text \<open>
  A Python \<open>str\<close> is modelled as a \<open>string\<close> whose characters are the code points
  below 256. The helpers below follow the Python builtins on that range.
\<close>

definition isspace :: "char \<Rightarrow> bool" where
  \<comment> \<open>\<open>str.isspace\<close> of one character: TAB..CR, FS..US, space, NEL, NBSP.\<close>
  "isspace c = ((of_char c :: nat) \<in> {9, 10, 11, 12, 13, 28, 29, 30, 31, 32, 133, 160})"

definition strip :: "string \<Rightarrow> string" where
  \<comment> \<open>\<open>s.strip()\<close>: whitespace removed at both ends.\<close>
  "strip s = rev (dropWhile isspace (rev (dropWhile isspace s)))"

definition lower_char :: "char \<Rightarrow> char" where
  "lower_char c =
     (let n = (of_char c :: nat) in if 65 \<le> n \<and> n \<le> 90 then char_of (n + 32) else c)"

definition lower :: "string \<Rightarrow> string" where
  \<comment> \<open>\<open>s.lower()\<close> on the ASCII letters.\<close>
  "lower s = map lower_char s"

definition upper_char :: "char \<Rightarrow> char" where
  "upper_char c =
     (let n = (of_char c :: nat) in if 97 \<le> n \<and> n \<le> 122 then char_of (n - 32) else c)"

definition upper :: "string \<Rightarrow> string" where
  \<comment> \<open>\<open>s.upper()\<close> on the ASCII letters; no other character becomes \<open>A\<close> in Python either.\<close>
  "upper s = map upper_char s"

definition digit_char :: "nat \<Rightarrow> char" where
  "digit_char d = char_of (d + 48)"

fun str_nat :: "nat \<Rightarrow> string" where
  \<comment> \<open>\<open>str(n)\<close> (and \<open>f"{n}"\<close>) of a non-negative integer.\<close>
  "str_nat n = (if n < 10 then [digit_char n] else str_nat (n div 10) @ [digit_char (n mod 10)])"

declare str_nat.simps [simp del]

section \<open>Data model (accessibility_rules.py)\<close>

datatype Severity = ERROR | WARNING | INFO

datatype WCAGLevel = Level_A | Level_AA | Level_AAA

text \<open>
  An element is the dictionary built by \<open>parse_html_to_elements\<close>. Each of its three keys
  may be missing (\<open>None\<close>); the inspected attribute values are strings.
\<close>

record html_element =
  tag :: "string option"
  attributes :: "(string \<rightharpoonup> string) option"
  text_content :: "string option"

text \<open>
  \<open>AccessibilityIssue\<close>. The field \<open>element\<close> holds \<open>str(html_element)\<close> in the source;
  the model keeps the element itself instead of its rendering.
\<close>

record AccessibilityIssue =
  rule_id :: string
  severity :: Severity
  wcag_level :: WCAGLevel
  message :: string
  element :: "html_element option"
  suggestion :: "string option"
  wcag_criteria :: "string option"

definition attr :: "html_element \<Rightarrow> string \<Rightarrow> string option" where
  \<comment> \<open>\<open>e.get("attributes", {}).get(k)\<close>\<close>
  "attr e k = (case attributes e of None \<Rightarrow> None | Some m \<Rightarrow> m k)"

definition truthy :: "string option \<Rightarrow> bool" where
  \<comment> \<open>Python truth value of \<open>None\<close> or a string.\<close>
  "truthy v = (case v of None \<Rightarrow> False | Some s \<Rightarrow> s \<noteq> [])"

section \<open>Per-element rules (class AccessibilityRules)\<close>

definition check_img_alt_text :: "html_element \<Rightarrow> AccessibilityIssue option" where
  "check_img_alt_text html_element =
     (if tag html_element = Some ''img'' then
        (case attr html_element ''alt'' of
           None \<Rightarrow> Some \<lparr>rule_id = ''img-alt-missing'', severity = ERROR, wcag_level = Level_A,
                         message = ''Image missing alt attribute'',
                         element = Some html_element,
                         suggestion = Some (''Add an alt attribute to describe the image. Use alt='' @ [CHR 0x27, CHR 0x27]
                                             @ '' for decorative images.''),
                         wcag_criteria = Some ''1.1.1''\<rparr>
         | Some alt \<Rightarrow>
             if strip alt = [] \<and> \<not> (attr html_element ''role'' = Some ''presentation'') then
               Some \<lparr>rule_id = ''img-alt-empty'', severity = WARNING, wcag_level = Level_A,
                     message = ''Image has empty alt text'',
                     element = Some html_element,
                     suggestion = Some ''If decorative, add role='presentation'. Otherwise, provide descriptive alt text.'',
                     wcag_criteria = Some ''1.1.1''\<rparr>
             else None)
      else None)"

definition check_form_labels :: "html_element \<Rightarrow> AccessibilityIssue option" where
  "check_form_labels form_element =
     (case tag form_element of
        None \<Rightarrow> None
      | Some tg \<Rightarrow>
          if tg \<in> {''input'', ''select'', ''textarea''} then
            (let input_type = (case attr form_element ''type'' of None \<Rightarrow> ''text'' | Some t \<Rightarrow> t) in
             if input_type \<in> {''submit'', ''button'', ''reset'', ''hidden''} then None
             else
               (let input_id = attr form_element ''id'';
                    aria_label = attr form_element ''aria-label'';
                    aria_labelledby = attr form_element ''aria-labelledby'';
                    title = attr form_element ''title''
                in if \<not> (truthy input_id \<or> truthy aria_label \<or> truthy aria_labelledby \<or> truthy title) then
                     Some \<lparr>rule_id = ''form-no-label'', severity = ERROR, wcag_level = Level_A,
                           message = tg @ '' element missing label'',
                           element = Some form_element,
                           suggestion = Some ''Add a label element with for attribute, or use aria-label/aria-labelledby'',
                           wcag_criteria = Some ''3.3.2''\<rparr>
                   else None))
          else None)"

definition check_color_contrast :: "AccessibilityIssue option" where
  "check_color_contrast =
     Some \<lparr>rule_id = ''color-contrast-check'', severity = INFO, wcag_level = Level_AA,
           message = ''Color contrast should be checked'',
           element = None,
           suggestion = Some ''Ensure contrast ratio is at least 4.5:1 for normal text, 3:1 for large text'',
           wcag_criteria = Some ''1.4.3''\<rparr>"

definition generic_texts :: "string list" where
  "generic_texts = [''click here'', ''read more'', ''learn more'', ''here'', ''link'', ''more'']"

definition check_link_text :: "html_element \<Rightarrow> AccessibilityIssue option" where
  "check_link_text link_element =
     (if tag link_element = Some ''a'' then
        (let text = strip (case text_content link_element of None \<Rightarrow> [] | Some t \<Rightarrow> t);
             aria_label = attr link_element ''aria-label''
         in if text = [] \<and> \<not> truthy aria_label then
              Some \<lparr>rule_id = ''link-no-text'', severity = ERROR, wcag_level = Level_A,
                    message = ''Link has no accessible text'',
                    element = Some link_element,
                    suggestion = Some ''Add link text or aria-label attribute'',
                    wcag_criteria = Some ''2.4.4''\<rparr>
            else if lower text \<in> set generic_texts \<and> \<not> truthy aria_label then
              Some \<lparr>rule_id = ''link-generic-text'', severity = WARNING, wcag_level = Level_A,
                    message = ''Link text '' @ [CHR 0x27] @ text @ [CHR 0x27] @ '' is not descriptive'',
                    element = Some link_element,
                    suggestion = Some ''Use descriptive link text that explains the destination'',
                    wcag_criteria = Some ''2.4.4''\<rparr>
            else None)
      else None)"

definition check_language_attribute :: "html_element \<Rightarrow> AccessibilityIssue option" where
  "check_language_attribute html_element =
     (if tag html_element = Some ''html'' then
        (let lang = attr html_element ''lang'' in
         if \<not> truthy lang then
           Some \<lparr>rule_id = ''html-no-lang'', severity = ERROR, wcag_level = Level_A,
                 message = ''HTML element missing lang attribute'',
                 element = None,
                 suggestion = Some ''Add lang attribute to specify the page language (e.g., lang='en')'',
                 wcag_criteria = Some ''3.1.1''\<rparr>
         else None)
      else None)"

definition valid_roles :: "string list" where
  "valid_roles =
     [''button'', ''link'', ''navigation'', ''main'', ''banner'', ''contentinfo'',
      ''complementary'', ''search'', ''form'', ''region'', ''alert'', ''status'',
      ''dialog'', ''alertdialog'', ''menu'', ''menubar'', ''menuitem'', ''tab'',
      ''tablist'', ''tabpanel'', ''toolbar'', ''tree'', ''treegrid'', ''treeitem'',
      ''grid'', ''gridcell'', ''row'', ''columnheader'', ''rowheader'', ''list'',
      ''listitem'', ''heading'', ''img'', ''presentation'', ''none'']"

definition check_aria_roles :: "html_element \<Rightarrow> AccessibilityIssue option" where
  "check_aria_roles el =
     (case attr el ''role'' of
        None \<Rightarrow> None
      | Some role \<Rightarrow>
          if role \<noteq> [] then
            (if role \<notin> set valid_roles then
               Some \<lparr>rule_id = ''aria-invalid-role'', severity = ERROR, wcag_level = Level_A,
                     message = ''Invalid ARIA role '' @ [CHR 0x27] @ role @ [CHR 0x27],
                     element = Some el,
                     suggestion = Some ''Use a valid ARIA role from the WAI-ARIA specification'',
                     wcag_criteria = Some ''4.1.2''\<rparr>
             else None)
          else None)"

definition check_keyboard_accessibility :: "html_element \<Rightarrow> AccessibilityIssue option" where
  "check_keyboard_accessibility el =
     (let onclick = attr el ''onclick'';
          role = attr el ''role'';
          tabindex = attr el ''tabindex''
      in if truthy onclick \<and>
            tag el \<notin> {Some ''a'', Some ''button'', Some ''input'', Some ''select'', Some ''textarea''} then
           (if \<not> (role \<in> {Some ''button'', Some ''link''}) \<and> tabindex = None then
              Some \<lparr>rule_id = ''keyboard-no-access'', severity = ERROR, wcag_level = Level_A,
                    message = ''Clickable element not keyboard accessible'',
                    element = Some el,
                    suggestion = Some ''Add tabindex='0' and keyboard event handlers, or use a button element'',
                    wcag_criteria = Some ''2.1.1''\<rparr>
            else None)
         else None)"

definition check_touch_target_size :: "html_element \<Rightarrow> AccessibilityIssue option" where
  "check_touch_target_size el =
     (let role = attr el ''role'' in
      if tag el \<in> {Some ''button'', Some ''a''} \<or> role \<in> {Some ''button'', Some ''link''} then
        Some \<lparr>rule_id = ''touch-target-size'', severity = INFO, wcag_level = Level_AAA,
              message = ''Verify touch target is at least 44x44 CSS pixels'',
              element = Some el,
              suggestion = Some ''Ensure interactive elements are large enough for touch interaction'',
              wcag_criteria = Some ''2.5.5''\<rparr>
      else None)"

definition effective_type :: "html_element \<Rightarrow> string" where
  \<comment> \<open>The \<open>type\<close> attribute as \<open>check_form_labels\<close> reads it: \<open>"text"\<close> when absent.\<close>
  "effective_type e = (case attr e ''type'' of None \<Rightarrow> ''text'' | Some t \<Rightarrow> t)"

section \<open>Heading hierarchy (check_heading_hierarchy)\<close>

datatype py_error = ValueError | KeyError

definition int_of_char :: "char \<Rightarrow> py_error + nat" where
  \<comment> \<open>\<open>int(c)\<close> of a one-character string: a decimal digit, or \<open>ValueError\<close>.\<close>
  "int_of_char c =
     (let n = (of_char c :: nat) in if 48 \<le> n \<and> n \<le> 57 then Inr (n - 48) else Inl ValueError)"

definition heading_no_h1 :: AccessibilityIssue where
  "heading_no_h1 =
     \<lparr>rule_id = ''heading-no-h1'', severity = WARNING, wcag_level = Level_A,
      message = ''Page should start with an h1 heading'',
      element = None,
      suggestion = Some ''Add an h1 as the main page heading'',
      wcag_criteria = Some ''1.3.1''\<rparr>"

definition heading_skipped_level :: "nat \<Rightarrow> nat \<Rightarrow> html_element \<Rightarrow> AccessibilityIssue" where
  "heading_skipped_level prev_level level heading =
     \<lparr>rule_id = ''heading-skipped-level'', severity = ERROR, wcag_level = Level_A,
      message = ''Heading level skipped from h'' @ str_nat prev_level @ '' to h'' @ str_nat level,
      element = Some heading,
      suggestion = Some (''Use h'' @ str_nat (prev_level + 1) @ '' instead of h'' @ str_nat level),
      wcag_criteria = Some ''1.3.1''\<rparr>"

text \<open>The \<open>for heading in headings\<close> loop, with its two variables \<open>prev_level\<close> and \<open>issues\<close>.\<close>

fun heading_loop ::
  "html_element list \<Rightarrow> nat \<Rightarrow> AccessibilityIssue list \<Rightarrow> py_error + AccessibilityIssue list" where
  "heading_loop [] prev_level issues = Inr issues"
| "heading_loop (heading # rest) prev_level issues =
     (let tg = (case tag heading of None \<Rightarrow> [] | Some t \<Rightarrow> t) in
      if take 1 tg = ''h'' \<and> length tg = 2 then
        (case int_of_char (tg ! 1) of
           Inl err \<Rightarrow> Inl err
         | Inr level \<Rightarrow>
             heading_loop rest level
               (if prev_level > 0 \<and> level > prev_level + 1
                then issues @ [heading_skipped_level prev_level level heading]
                else issues))
      else heading_loop rest prev_level issues)"

definition check_heading_hierarchy ::
  "html_element list \<Rightarrow> py_error + AccessibilityIssue list" where
  "check_heading_hierarchy headings =
     (case headings of
        [] \<Rightarrow> Inr []
      | first # _ \<Rightarrow>
          heading_loop headings 0 (if tag first \<noteq> Some ''h1'' then [heading_no_h1] else []))"

text \<open>
  The vocabulary of the heading property: the level of a well-formed heading (\<open>h\<close> and one
  decimal digit), the levels of a heading list in order, and the jumps met when
  \<open>previous_level\<close> is tracked through them.
\<close>

definition heading_level :: "html_element \<Rightarrow> nat option" where
  "heading_level h =
     (case tag h of
        Some [c, d] \<Rightarrow>
          if c = CHR ''h'' \<and> 48 \<le> (of_char d :: nat) \<and> (of_char d :: nat) \<le> 57
          then Some (of_char d - 48) else None
      | _ \<Rightarrow> None)"

definition int_raises :: "html_element \<Rightarrow> bool" where
  \<comment> \<open>a two-character tag that starts with \<open>h\<close> and does not end in a decimal digit\<close>
  "int_raises h =
     (case tag h of
        Some [c, d] \<Rightarrow> c = CHR ''h'' \<and> \<not> (48 \<le> (of_char d :: nat) \<and> (of_char d :: nat) \<le> 57)
      | _ \<Rightarrow> False)"

fun jumps :: "nat \<Rightarrow> (nat \<times> html_element) list \<Rightarrow> (nat \<times> nat \<times> html_element) list" where
  "jumps previous_level [] = []"
| "jumps previous_level ((l, h) # rest) =
     (if previous_level > 0 \<and> l > previous_level + 1 then [(previous_level, l, h)] else [])
       @ jumps l rest"

definition levelled :: "html_element list \<Rightarrow> (nat \<times> html_element) list" where
  "levelled hs = List.map_filter (\<lambda>h. map_option (\<lambda>l. (l, h)) (heading_level h)) hs"

section \<open>The server's passes (server.py)\<close>

fun extract_headings :: "html_element list \<Rightarrow> py_error + html_element list" where
  \<comment> \<open>\<open>e["tag"]\<close> raises \<open>KeyError\<close> on an element with no tag.\<close>
  "extract_headings [] = Inr []"
| "extract_headings (e # es) =
     (case tag e of
        None \<Rightarrow> Inl KeyError
      | Some t \<Rightarrow>
          (case extract_headings es of
             Inl err \<Rightarrow> Inl err
           | Inr hs \<Rightarrow>
               Inr (if t \<in> set [''h1'', ''h2'', ''h3'', ''h4'', ''h5'', ''h6''] then e # hs else hs)))"

definition opt_list :: "'a option \<Rightarrow> 'a list" where
  \<comment> \<open>\<open>if issue: issues.append(issue)\<close>\<close>
  "opt_list v = (case v of None \<Rightarrow> [] | Some x \<Rightarrow> [x])"

definition element_issues :: "html_element \<Rightarrow> AccessibilityIssue list" where
  \<comment> \<open>the body of the \<open>for element in elements\<close> loop of \<open>check_html_accessibility\<close>\<close>
  "element_issues el =
     opt_list (check_img_alt_text el) @ opt_list (check_form_labels el) @
     opt_list (check_link_text el) @ opt_list (check_language_attribute el) @
     opt_list (check_aria_roles el) @ opt_list (check_keyboard_accessibility el)"

definition level_value :: "WCAGLevel \<Rightarrow> string" where
  "level_value l = (case l of Level_A \<Rightarrow> ''A'' | Level_AA \<Rightarrow> ''AA'' | Level_AAA \<Rightarrow> ''AAA'')"

definition severity_value :: "Severity \<Rightarrow> string" where
  "severity_value s = (case s of ERROR \<Rightarrow> ''error'' | WARNING \<Rightarrow> ''warning'' | INFO \<Rightarrow> ''info'')"

record issue_dict =
  d_rule_id :: string
  d_message :: string
  d_wcag_level :: string
  d_wcag_criteria :: "string option"
  d_suggestion :: "string option"

definition to_issue_dict :: "AccessibilityIssue \<Rightarrow> issue_dict" where
  "to_issue_dict i =
     \<lparr>d_rule_id = rule_id i, d_message = message i, d_wcag_level = level_value (wcag_level i),
      d_wcag_criteria = wcag_criteria i, d_suggestion = suggestion i\<rparr>"

record check_result =
  total_issues :: nat
  errors :: "issue_dict list"
  warnings :: "issue_dict list"
  info :: "issue_dict list"
  summary_errors :: nat
  summary_warnings :: nat
  summary_info :: nat

text \<open>
  \<open>check_html_accessibility\<close>, from the element list that \<open>parse_html_to_elements\<close>
  hands it (the HTML parser is an external library).
\<close>

definition check_html_accessibility :: "html_element list \<Rightarrow> bool \<Rightarrow> py_error + check_result" where
  "check_html_accessibility elements include_warnings =
     (let issues = concat (map element_issues elements) in
      case extract_headings elements of
        Inl err \<Rightarrow> Inl err
      | Inr headings \<Rightarrow>
          (case check_heading_hierarchy headings of
             Inl err \<Rightarrow> Inl err
           | Inr heading_issues \<Rightarrow>
               (let issues1 = issues @ heading_issues;
                    issues2 = (if \<not> include_warnings
                               then filter (\<lambda>i. severity i = ERROR) issues1 else issues1);
                    es = map to_issue_dict (filter (\<lambda>i. severity i = ERROR) issues2);
                    ws = map to_issue_dict (filter (\<lambda>i. severity i = WARNING) issues2);
                    ins = map to_issue_dict
                            (filter (\<lambda>i. severity i \<noteq> ERROR \<and> severity i \<noteq> WARNING) issues2)
                in Inr \<lparr>total_issues = length issues2, errors = es, warnings = ws, info = ins,
                        summary_errors = length es, summary_warnings = length ws,
                        summary_info = length ins\<rparr>)))"

section \<open>The criteria catalog (wcag_data.py)\<close>

record WCAGCriterion =
  number :: string
  crit_id :: string
  title :: string
  level :: string
  version :: string
  description :: string
  principle :: string
  guideline :: string
  exceptions :: "string list option"

text \<open>
  The catalog is built once from the data file \<open>wcag_criteria_complete.json\<close>, which is
  not part of the sources; it is a parameter here: the criteria in the order
  \<open>_process_criteria\<close> inserts them. Their numbers are the keys of a dictionary, hence
  distinct.
\<close>

type_synonym catalog = "WCAGCriterion list"

definition get_criteria_by_level :: "catalog \<Rightarrow> string \<Rightarrow> WCAGCriterion list" where
  "get_criteria_by_level wcag_data lv = filter (\<lambda>c. level c = lv) wcag_data"

definition get_criterion :: "catalog \<Rightarrow> string \<Rightarrow> WCAGCriterion option" where
  "get_criterion wcag_data n = find (\<lambda>c. number c = n) wcag_data"

section \<open>Compliance validation (validate_wcag_compliance_level)\<close>

text \<open>
  \<open>criterion_issues\<close> is a dictionary filled with \<open>setdefault\<close>; its items are read in
  insertion order, so it is an association list.
\<close>

fun setdefault_extend ::
  "string \<Rightarrow> AccessibilityIssue list \<Rightarrow> (string \<times> AccessibilityIssue list) list
     \<Rightarrow> (string \<times> AccessibilityIssue list) list" where
  \<comment> \<open>\<open>d.setdefault(k, []).extend(xs)\<close>\<close>
  "setdefault_extend k xs [] = [(k, xs)]"
| "setdefault_extend k xs ((k', ys) # d) =
     (if k' = k then (k', ys @ xs) # d else (k', ys) # setdefault_extend k xs d)"

definition setdefault_append ::
  "string \<Rightarrow> AccessibilityIssue option \<Rightarrow> (string \<times> AccessibilityIssue list) list
     \<Rightarrow> (string \<times> AccessibilityIssue list) list" where
  \<comment> \<open>\<open>if issue: d.setdefault(k, []).append(issue)\<close>\<close>
  "setdefault_append k v d = (case v of None \<Rightarrow> d | Some x \<Rightarrow> setdefault_extend k [x] d)"

definition element_criterion_issues ::
  "html_element \<Rightarrow> (string \<times> AccessibilityIssue list) list
     \<Rightarrow> (string \<times> AccessibilityIssue list) list" where
  \<comment> \<open>the body of the \<open>for element in elements\<close> loop\<close>
  "element_criterion_issues el d =
     setdefault_append ''2.1.1'' (check_keyboard_accessibility el)
       (setdefault_append ''4.1.2'' (check_aria_roles el)
         (setdefault_append ''3.1.1'' (check_language_attribute el)
           (setdefault_append ''2.4.4'' (check_link_text el)
             (setdefault_append ''3.3.2'' (check_form_labels el)
               (setdefault_append ''1.1.1'' (check_img_alt_text el) d)))))"

fun criterion_loop ::
  "html_element list \<Rightarrow> (string \<times> AccessibilityIssue list) list
     \<Rightarrow> (string \<times> AccessibilityIssue list) list" where
  "criterion_loop [] d = d"
| "criterion_loop (el # els) d = criterion_loop els (element_criterion_issues el d)"

definition required_criteria :: "catalog \<Rightarrow> string \<Rightarrow> WCAGCriterion list" where
  \<comment> \<open>the three \<open>extend\<close> calls; the argument is \<open>target_level.upper()\<close>\<close>
  "required_criteria wcag_data up =
     (if up \<in> {''A'', ''AA'', ''AAA''} then get_criteria_by_level wcag_data ''A'' else []) @
     (if up \<in> {''AA'', ''AAA''} then get_criteria_by_level wcag_data ''AA'' else []) @
     (if up = ''AAA'' then get_criteria_by_level wcag_data ''AAA'' else [])"

record violation =
  criterion :: string
  criterion_title :: string
  criterion_level :: string
  issue :: string
  v_severity :: string
  v_element :: "html_element option"
  v_suggestion :: "string option option"

definition make_violation ::
  "string \<Rightarrow> WCAGCriterion \<Rightarrow> bool \<Rightarrow> AccessibilityIssue \<Rightarrow> violation" where
  \<comment> \<open>the key \<open>suggestion\<close> is set only when \<open>include_suggestions\<close> holds\<close>
  "make_violation criterion_number crit include_suggestions i =
     \<lparr>criterion = criterion_number, criterion_title = title crit, criterion_level = level crit,
      issue = message i, v_severity = severity_value (severity i), v_element = element i,
      v_suggestion = (if include_suggestions then Some (suggestion i) else None)\<rparr>"

definition build_violations ::
  "catalog \<Rightarrow> WCAGCriterion list \<Rightarrow> bool \<Rightarrow> (string \<times> AccessibilityIssue list) list
     \<Rightarrow> violation list" where
  "build_violations wcag_data required include_suggestions d =
     concat (map (\<lambda>(criterion_number, criterion_issues_list).
                    case get_criterion wcag_data criterion_number of
                      None \<Rightarrow> []
                    | Some crit \<Rightarrow>
                        if list_ex (\<lambda>c. number c = criterion_number) required
                        then map (make_violation criterion_number crit include_suggestions)
                                 criterion_issues_list
                        else []) d)"

definition round_half_even :: "rat \<Rightarrow> int" where
  "round_half_even x =
     (let f = \<lfloor>x\<rfloor>; d = x - of_int f in
      if d < 1 / 2 then f else if d > 1 / 2 then f + 1 else if even f then f else f + 1)"

definition round1 :: "rat \<Rightarrow> rat" where
  \<comment> \<open>\<open>round(x, 1)\<close>; the float arithmetic is modelled over the rationals\<close>
  "round1 x = of_int (round_half_even (x * 10)) / 10"

text \<open>
  The report. The key \<open>summary\<close>, a sentence built from \<open>violations\<close> and
  \<open>violated_criteria\<close>, is left out.
\<close>

record compliance_report =
  target_level :: string
  compliance_status :: string
  compliance_percentage :: rat
  total_required_criteria :: nat
  violated_criteria :: nat
  total_violations :: nat
  violations :: "violation list"

text \<open>
  \<open>validate_wcag_compliance_level\<close>, from the element list on. \<open>Inr (Inl msg)\<close> is the
  dictionary \<open>{"error": msg}\<close> that the function returns for an unknown level.
\<close>

definition validate_wcag_compliance_level ::
  "catalog \<Rightarrow> html_element list \<Rightarrow> string \<Rightarrow> bool \<Rightarrow> py_error + (string + compliance_report)" where
  "validate_wcag_compliance_level wcag_data elements tlevel include_suggestions =
     (if upper tlevel \<notin> {''A'', ''AA'', ''AAA''} then Inr (Inl ''Target level must be A, AA, or AAA'')
      else
        (let required = required_criteria wcag_data (upper tlevel);
             criterion_issues = criterion_loop elements []
         in case extract_headings elements of
              Inl err \<Rightarrow> Inl err
            | Inr headings \<Rightarrow>
                (case check_heading_hierarchy headings of
                   Inl err \<Rightarrow> Inl err
                 | Inr heading_issues \<Rightarrow>
                     (let criterion_issues1 =
                            (if heading_issues \<noteq> []
                             then setdefault_extend ''1.3.1'' heading_issues criterion_issues
                             else criterion_issues);
                          vs = build_violations wcag_data required include_suggestions
                                 criterion_issues1;
                          total_required = length required;
                          violated = card (set (map criterion vs));
                          percentage =
                            (if total_required > 0
                             then (of_nat total_required - of_nat violated) / of_nat total_required * 100
                             else 100)
                      in Inr (Inr \<lparr>target_level = upper tlevel,
                                   compliance_status = (if length vs = 0 then ''PASS'' else ''FAIL''),
                                   compliance_percentage = round1 percentage,
                                   total_required_criteria = total_required,
                                   violated_criteria = violated,
                                   total_violations = length vs,
                                   violations = vs\<rparr>)))))"

section \<open>Contrast calculator (contrast_calculator.py)\<close>

definition int_space :: "char \<Rightarrow> bool" where
  \<comment> \<open>the whitespace \<open>int\<close> skips around a number: TAB..CR and space, and the Unicode
      whitespace above U+007F, here NEL and NBSP, which CPython first turns into a space;
      the separators U+001C..U+001F, which \<open>str.isspace\<close> accepts, are not skipped\<close>
  "int_space c = ((of_char c :: nat) \<in> {9, 10, 11, 12, 13, 32, 133, 160})"

definition is_hex :: "char \<Rightarrow> bool" where
  "is_hex c =
     (let n = (of_char c :: nat) in
      (48 \<le> n \<and> n \<le> 57) \<or> (65 \<le> n \<and> n \<le> 70) \<or> (97 \<le> n \<and> n \<le> 102))"

definition hex_val :: "char \<Rightarrow> nat" where
  "hex_val c =
     (let n = (of_char c :: nat) in
      if n \<le> 57 then n - 48 else if n \<le> 70 then n - 55 else n - 87)"

fun double_underscore :: "string \<Rightarrow> bool" where
  "double_underscore (a # b # r) = ((a = CHR ''_'' \<and> b = CHR ''_'') \<or> double_underscore (b # r))"
| "double_underscore _ = False"

text \<open>
  \<open>int(s, 16)\<close> as CPython parses it: surrounding whitespace (\<open>int_space\<close>), one sign,
  an optional \<open>0x\<close> prefix, then hexadecimal digits that single underscores may separate.
\<close>

definition int16 :: "string \<Rightarrow> py_error + int" where
  "int16 s =
     (let s1 = dropWhile int_space s;
          neg = (take 1 s1 = ''-'');
          s2 = (if take 1 s1 = ''-'' \<or> take 1 s1 = ''+'' then drop 1 s1 else s1);
          s3 = (if take 1 s2 = ''0'' \<and> (take 1 (drop 1 s2) = ''x'' \<or> take 1 (drop 1 s2) = ''X'')
                then (if take 1 (drop 2 s2) = ''_'' then drop 3 s2 else drop 2 s2)
                else s2);
          body = takeWhile (\<lambda>c. is_hex c \<or> c = CHR ''_'') s3;
          rest = dropWhile (\<lambda>c. is_hex c \<or> c = CHR ''_'') s3
      in if take 1 s3 = ''_'' \<or> body = [] \<or> last body = CHR ''_'' \<or> double_underscore body
            \<or> dropWhile int_space rest \<noteq> []
         then Inl ValueError
         else Inr ((if neg then - 1 else 1) *
                   int (foldl (\<lambda>a c. 16 * a + hex_val c) 0 (filter (\<lambda>c. c \<noteq> CHR ''_'') body))))"

definition hex_to_rgb :: "string \<Rightarrow> py_error + (int \<times> int \<times> int)" where
  "hex_to_rgb hex_color0 =
     (let hex_color = dropWhile (\<lambda>c. c = CHR ''#'') hex_color0 in
      case int16 (take 2 hex_color) of
        Inl err \<Rightarrow> Inl err
      | Inr r \<Rightarrow>
          (case int16 (take 2 (drop 2 hex_color)) of
             Inl err \<Rightarrow> Inl err
           | Inr g \<Rightarrow>
               (case int16 (take 2 (drop 4 hex_color)) of
                  Inl err \<Rightarrow> Inl err
                | Inr b \<Rightarrow> Inr (r, g, b))))"

text \<open>The float arithmetic of the luminance and of the ratio is modelled over the reals.\<close>

definition linearize :: "real \<Rightarrow> real" where
  "linearize c0 =
     (let c = c0 / 255 in
      if c \<le> 0.03928 then c / 12.92 else ((c + 0.055) / 1.055) powr 2.4)"

definition rgb_to_relative_luminance :: "int \<Rightarrow> int \<Rightarrow> int \<Rightarrow> real" where
  "rgb_to_relative_luminance r g b =
     0.2126 * linearize (of_int r) + 0.7152 * linearize (of_int g) + 0.0722 * linearize (of_int b)"

definition calculate_contrast_ratio :: "string \<Rightarrow> string \<Rightarrow> py_error + real" where
  "calculate_contrast_ratio color1 color2 =
     (case hex_to_rgb color1 of
        Inl err \<Rightarrow> Inl err
      | Inr (r1, g1, b1) \<Rightarrow>
          (case hex_to_rgb color2 of
             Inl err \<Rightarrow> Inl err
           | Inr (r2, g2, b2) \<Rightarrow>
               (let lum1 = rgb_to_relative_luminance r1 g1 b1;
                    lum2 = rgb_to_relative_luminance r2 g2 b2;
                    lighter = max lum1 lum2;
                    darker = min lum1 lum2
                in Inr ((lighter + 0.05) / (darker + 0.05)))))"

definition round2 :: "real \<Rightarrow> real" where
  \<comment> \<open>\<open>round(x, 2)\<close>, ties to even\<close>
  "round2 x =
     (let y = x * 100; f = \<lfloor>y\<rfloor>; d = y - of_int f in
      of_int (if d < 1 / 2 then f else if d > 1 / 2 then f + 1 else if even f then f else f + 1) / 100)"

text \<open>
  The result of \<open>evaluate_contrast\<close>. The two \<open>status\<close> strings, which only render
  \<open>passes\<close>, are left out.
\<close>

record contrast_result =
  foreground :: string
  background :: string
  contrast_ratio :: real
  font_size :: real
  is_bold :: bool
  is_large_text :: bool
  aa_required :: real
  aa_passes :: bool
  aaa_required :: real
  aaa_passes :: bool
  overall_grade :: string

definition evaluate_contrast :: "string \<Rightarrow> string \<Rightarrow> real \<Rightarrow> bool \<Rightarrow> py_error + contrast_result" where
  "evaluate_contrast fg bg fsize bold =
     (case calculate_contrast_ratio fg bg of
        Inl err \<Rightarrow> Inl err
      | Inr ratio \<Rightarrow>
          (let large = (fsize \<ge> 18 \<or> (fsize \<ge> 14 \<and> bold));
               aa_threshold = (if large then 3.0 else 4.5);
               aaa_threshold = (if large then 4.5 else 7.0);
               aa_pass = (ratio \<ge> aa_threshold);
               aaa_pass = (ratio \<ge> aaa_threshold)
           in Inr \<lparr>foreground = fg, background = bg, contrast_ratio = round2 ratio,
                   font_size = fsize, is_bold = bold, is_large_text = large,
                   aa_required = aa_threshold, aa_passes = aa_pass,
                   aaa_required = aaa_threshold, aaa_passes = aaa_pass,
                   overall_grade = (if aaa_pass then ''AAA'' else if aa_pass then ''AA'' else ''FAIL'')\<rparr>))"

definition six_hex_digits :: "string \<Rightarrow> bool" where
  \<comment> \<open>a well-formed color: six hexadecimal digits, with or without one leading \<open>#\<close>\<close>
  "six_hex_digits s =
     (let d = (if take 1 s = ''#'' then drop 1 s else s) in length d = 6 \<and> list_all is_hex d)"

definition six_hex_prefix :: "string \<Rightarrow> bool" where
  \<comment> \<open>without its leading \<open>#\<close>s, the string has six characters or more, the first six hexadecimal\<close>
  "six_hex_prefix s =
     (let d = dropWhile (\<lambda>c. c = CHR ''#'') s in length d \<ge> 6 \<and> list_all is_hex (take 6 d))"

definition channel :: "char \<Rightarrow> char \<Rightarrow> int" where
  \<comment> \<open>the value of two hexadecimal digits\<close>
  "channel a b = int (16 * hex_val a + hex_val b)"

definition cumulative_levels :: "string \<Rightarrow> string set" where
  \<comment> \<open>the levels a target level requires: its own and those below\<close>
  "cumulative_levels up =
     (if up = ''A'' then {''A''} else if up = ''AA'' then {''A'', ''AA''}
      else if up = ''AAA'' then {''A'', ''AA'', ''AAA''} else {})"

definition crit :: "string \<Rightarrow> string \<Rightarrow> string \<Rightarrow> WCAGCriterion" where
  \<comment> \<open>a catalog entry with the given number, title and level, for the examples\<close>
  "crit n t l = \<lparr>number = n, crit_id = [], title = t, level = l, version = ''2.0'',
                 description = [], principle = [], guideline = [], exceptions = None\<rparr>"

definition slice_ok :: "string \<Rightarrow> bool" where
  \<comment> \<open>the one- and two-character strings that \<open>int(s, 16)\<close> reads: hexadecimal digits, or one
      digit with a sign or skipped whitespace before it, or skipped whitespace after it\<close>
  "slice_ok sl =
     (case sl of
        [a] \<Rightarrow> is_hex a
      | [a, b] \<Rightarrow> (is_hex a \<and> is_hex b)
                 \<or> ((a = CHR ''-'' \<or> a = CHR ''+'' \<or> int_space a) \<and> is_hex b)
                 \<or> (is_hex a \<and> int_space b)
      | _ \<Rightarrow> False)"

definition accepted :: "string \<Rightarrow> bool" where
  \<comment> \<open>the three slices \<open>[0:2]\<close>, \<open>[2:4]\<close>, \<open>[4:6]\<close> of the string without its leading \<open>#\<close>s
      are all read by \<open>int(s, 16)\<close>\<close>
  "accepted s =
     (let d = dropWhile (\<lambda>c. c = CHR ''#'') s
      in slice_ok (take 2 d) \<and> slice_ok (take 2 (drop 2 d)) \<and> slice_ok (take 2 (drop 4 d)))"

section \<open>Properties of the per-element rules\<close>

lemma strip_empty_iff: "strip s = [] \<longleftrightarrow> (\<forall>c\<in>set s. isspace c)"
proof -
  have "strip s = [] \<longleftrightarrow> dropWhile isspace (rev (dropWhile isspace s)) = []"
    by (simp add: strip_def)
  also have "\<dots> \<longleftrightarrow> (\<forall>c\<in>set (dropWhile isspace s). isspace c)"
    by (simp add: dropWhile_eq_Nil_conv)
  also have "\<dots> \<longleftrightarrow> (\<forall>c\<in>set s. isspace c)"
  proof
    assume a: "\<forall>c\<in>set (dropWhile isspace s). isspace c"
    show "\<forall>c\<in>set s. isspace c"
    proof (cases "dropWhile isspace s")
      case Nil
      then show ?thesis by (simp add: dropWhile_eq_Nil_conv)
    next
      case (Cons x xs)
      then have "\<not> isspace x" using hd_dropWhile [of isspace s] by simp
      moreover have "x \<in> set (dropWhile isspace s)" using Cons by simp
      ultimately show ?thesis using a by blast
    qed
  next
    assume "\<forall>c\<in>set s. isspace c"
    then show "\<forall>c\<in>set (dropWhile isspace s). isspace c"
      using set_dropWhileD by fastforce
  qed
  finally show ?thesis .
qed

text \<open>
  Claim C5. For an \<open>img\<close> element: with no \<open>alt\<close> attribute the checker returns one issue
  \<open>img-alt-missing\<close> of severity error; with a blank \<open>alt\<close> (only whitespace, or empty) and
  a role other than \<open>presentation\<close> it returns one issue \<open>img-alt-empty\<close> of severity
  warning; with a blank \<open>alt\<close> and the role \<open>presentation\<close> it returns no issue.
\<close>

theorem check_img_alt_text_cases:
  assumes "tag e = Some ''img''"
  shows "(attr e ''alt'' = None \<longrightarrow>
            (\<exists>i. check_img_alt_text e = Some i \<and> rule_id i = ''img-alt-missing'' \<and> severity i = ERROR))
       \<and> (\<forall>alt. attr e ''alt'' = Some alt \<and> (\<forall>c\<in>set alt. isspace c) \<and> attr e ''role'' \<noteq> Some ''presentation'' \<longrightarrow>
            (\<exists>i. check_img_alt_text e = Some i \<and> rule_id i = ''img-alt-empty'' \<and> severity i = WARNING))
       \<and> (\<forall>alt. attr e ''alt'' = Some alt \<and> (\<forall>c\<in>set alt. isspace c) \<and> attr e ''role'' = Some ''presentation'' \<longrightarrow>
            check_img_alt_text e = None)"
  using assms by (simp add: check_img_alt_text_def strip_empty_iff)

theorem check_img_alt_text_cases_witness:
  "(\<exists>i. check_img_alt_text \<lparr>tag = Some ''img'', attributes = Some Map.empty, text_content = Some ''''\<rparr> = Some i
        \<and> rule_id i = ''img-alt-missing'' \<and> severity i = ERROR)
   \<and> (\<exists>i. check_img_alt_text \<lparr>tag = Some ''img'', attributes = Some [''alt'' \<mapsto> '' ''], text_content = Some ''''\<rparr> = Some i
        \<and> rule_id i = ''img-alt-empty'' \<and> severity i = WARNING)
   \<and> check_img_alt_text \<lparr>tag = Some ''img'', attributes = Some [''alt'' \<mapsto> '''', ''role'' \<mapsto> ''presentation''],
                           text_content = Some ''''\<rparr> = None"
  using check_img_alt_text_cases [of "\<lparr>tag = Some ''img'', attributes = Some Map.empty, text_content = Some ''''\<rparr>"]
        check_img_alt_text_cases [of "\<lparr>tag = Some ''img'', attributes = Some [''alt'' \<mapsto> '' ''], text_content = Some ''''\<rparr>"]
        check_img_alt_text_cases [of "\<lparr>tag = Some ''img'', attributes = Some [''alt'' \<mapsto> '''', ''role'' \<mapsto> ''presentation''],
                           text_content = Some ''''\<rparr>"]
  by (simp add: attr_def isspace_def)

text \<open>
  Claim C10. For an \<open>html\<close> element, \<open>check_language_attribute\<close> returns one issue
  \<open>html-no-lang\<close> of severity error exactly when the \<open>lang\<close> attribute is absent or is the
  empty string, and no issue otherwise: an empty \<open>lang\<close> counts as a missing one.
\<close>

theorem check_language_attribute_empty_as_absent:
  assumes "tag e = Some ''html''"
  shows "((\<exists>i. check_language_attribute e = Some i \<and> rule_id i = ''html-no-lang'' \<and> severity i = ERROR)
            \<longleftrightarrow> (attr e ''lang'' = None \<or> attr e ''lang'' = Some ''''))
       \<and> (\<not> (attr e ''lang'' = None \<or> attr e ''lang'' = Some '''') \<longrightarrow> check_language_attribute e = None)"
  using assms by (auto simp add: check_language_attribute_def truthy_def Let_def split: option.splits)

theorem check_language_attribute_empty_as_absent_witness:
  "(\<exists>i. check_language_attribute \<lparr>tag = Some ''html'', attributes = Some [''lang'' \<mapsto> ''''], text_content = None\<rparr> = Some i
        \<and> rule_id i = ''html-no-lang'' \<and> severity i = ERROR)
   \<and> (\<exists>i. check_language_attribute \<lparr>tag = Some ''html'', attributes = None, text_content = None\<rparr> = Some i
        \<and> rule_id i = ''html-no-lang'' \<and> severity i = ERROR)
   \<and> check_language_attribute \<lparr>tag = Some ''html'', attributes = Some [''lang'' \<mapsto> ''en''], text_content = None\<rparr> = None"
  using check_language_attribute_empty_as_absent [of "\<lparr>tag = Some ''html'', attributes = Some [''lang'' \<mapsto> ''''], text_content = None\<rparr>"]
        check_language_attribute_empty_as_absent [of "\<lparr>tag = Some ''html'', attributes = None, text_content = None\<rparr>"]
        check_language_attribute_empty_as_absent [of "\<lparr>tag = Some ''html'', attributes = Some [''lang'' \<mapsto> ''en''], text_content = None\<rparr>"]
  by (simp add: attr_def)

text \<open>
  Claim C6, where it fails: an \<open>input\<close> whose only attribute is \<open>id=""\<close> has the attribute
  \<open>id\<close> present, and \<open>check_form_labels\<close> still reports \<open>form-no-label\<close>, since the test
  \<open>any([...])\<close> reads the truth value of each attribute.
\<close>

theorem check_form_labels_empty_id_counterexample:
  "attr \<lparr>tag = Some ''input'', attributes = Some [''id'' \<mapsto> ''''], text_content = Some ''''\<rparr> ''id'' = Some ''''
   \<and> check_form_labels \<lparr>tag = Some ''input'', attributes = Some [''id'' \<mapsto> ''''], text_content = Some ''''\<rparr>
       = Some \<lparr>rule_id = ''form-no-label'', severity = ERROR, wcag_level = Level_A,
               message = ''input element missing label'',
               element = Some \<lparr>tag = Some ''input'', attributes = Some [''id'' \<mapsto> ''''], text_content = Some ''''\<rparr>,
               suggestion = Some ''Add a label element with for attribute, or use aria-label/aria-labelledby'',
               wcag_criteria = Some ''3.3.2''\<rparr>"
  by (simp add: check_form_labels_def attr_def truthy_def)

text \<open>
  Claim C6, amended. For an element whose tag is \<open>input\<close>, \<open>select\<close> or \<open>textarea\<close> and whose
  effective type is none of \<open>submit\<close>, \<open>button\<close>, \<open>reset\<close>, \<open>hidden\<close>:
  \<open>check_form_labels\<close> returns a \<open>form-no-label\<close> issue of severity error exactly when
  each of \<open>id\<close>, \<open>aria-label\<close>, \<open>aria-labelledby\<close>, \<open>title\<close> is absent or empty, and no
  issue exactly when one of them is present with a non-empty value.
\<close>

theorem check_form_labels_nonempty:
  assumes "tag e \<in> {Some ''input'', Some ''select'', Some ''textarea''}"
      and "effective_type e \<notin> {''submit'', ''button'', ''reset'', ''hidden''}"
  shows "((\<exists>i. check_form_labels e = Some i \<and> rule_id i = ''form-no-label'' \<and> severity i = ERROR)
            \<longleftrightarrow> (\<forall>k\<in>{''id'', ''aria-label'', ''aria-labelledby'', ''title''}. attr e k = None \<or> attr e k = Some ''''))
       \<and> (check_form_labels e = None
            \<longleftrightarrow> (\<exists>k\<in>{''id'', ''aria-label'', ''aria-labelledby'', ''title''}. \<exists>v. attr e k = Some v \<and> v \<noteq> ''''))"
  using assms
  by (auto simp add: check_form_labels_def effective_type_def truthy_def Let_def split: option.splits)

theorem check_form_labels_nonempty_witness:
  "(\<exists>i. check_form_labels \<lparr>tag = Some ''input'', attributes = Some [''id'' \<mapsto> ''''], text_content = None\<rparr> = Some i
        \<and> rule_id i = ''form-no-label'' \<and> severity i = ERROR)
   \<and> check_form_labels \<lparr>tag = Some ''select'', attributes = Some [''title'' \<mapsto> ''Country''], text_content = None\<rparr> = None"
  using check_form_labels_nonempty [of "\<lparr>tag = Some ''input'', attributes = Some [''id'' \<mapsto> ''''], text_content = None\<rparr>"]
        check_form_labels_nonempty [of "\<lparr>tag = Some ''select'', attributes = Some [''title'' \<mapsto> ''Country''], text_content = None\<rparr>"]
  by (simp add: attr_def effective_type_def)

section \<open>Properties of the heading hierarchy check\<close>

lemma two_chars: "length (t::string) = 2 \<Longrightarrow> \<exists>c d. t = [c, d]"
  by (cases t; simp) (metis length_0_conv length_Suc_conv Suc_length_conv)

lemma heading_step:
  "heading_loop (h # rest) p iss =
     (if int_raises h then Inl ValueError
      else case heading_level h of
             None \<Rightarrow> heading_loop rest p iss
           | Some l \<Rightarrow> heading_loop rest l
                        (if p > 0 \<and> l > p + 1 then iss @ [heading_skipped_level p l h] else iss))"
proof (cases "tag h")
  case None
  then show ?thesis by (simp add: int_raises_def heading_level_def)
next
  case (Some t)
  show ?thesis
  proof (cases "length t = 2")
    case True
    then obtain c d where t: "t = [c, d]" using two_chars by blast
    show ?thesis using Some t
      by (simp add: int_raises_def heading_level_def int_of_char_def Let_def)
  next
    case False
    then have "\<And>c d. t \<noteq> [c, d]" by auto
    then show ?thesis using Some False
      by (auto simp add: int_raises_def heading_level_def split: list.splits)
  qed
qed

lemma levelled_Cons:
  "levelled (h # hs) = (case heading_level h of None \<Rightarrow> levelled hs | Some l \<Rightarrow> (l, h) # levelled hs)"
  by (simp add: levelled_def List.map_filter_simps split: option.splits)

lemma levelled_Nil: "levelled [] = []"
  by (simp add: levelled_def List.map_filter_simps)

lemma heading_loop_jumps:
  "\<forall>h\<in>set hs. \<not> int_raises h \<Longrightarrow>
   heading_loop hs p iss =
     Inr (iss @ map (\<lambda>(p, l, h). heading_skipped_level p l h) (jumps p (levelled hs)))"
proof (induction hs arbitrary: p iss)
  case Nil
  then show ?case by (simp add: levelled_Nil)
next
  case (Cons h hs)
  then have ok: "\<not> int_raises h" and rest: "\<forall>h\<in>set hs. \<not> int_raises h" by simp_all
  show ?case
  proof (cases "heading_level h")
    case None
    then show ?thesis using ok Cons.IH [OF rest]
      by (simp only: heading_step levelled_Cons) simp
  next
    case (Some l)
    then show ?thesis using ok Cons.IH [OF rest]
      by (simp only: heading_step levelled_Cons) simp
  qed
qed

lemma check_heading_hierarchy_returns:
  assumes "\<forall>h\<in>set hs. \<not> int_raises h"
  shows "check_heading_hierarchy hs =
           Inr ((if hs \<noteq> [] \<and> tag (hd hs) \<noteq> Some ''h1'' then [heading_no_h1] else [])
                @ map (\<lambda>(p, l, h). heading_skipped_level p l h) (jumps 0 (levelled hs)))"
proof (cases hs)
  case Nil
  then show ?thesis by (simp add: check_heading_hierarchy_def levelled_Nil)
next
  case (Cons first rest)
  show ?thesis
    using heading_loop_jumps [OF assms, of 0 "if tag first \<noteq> Some ''h1'' then [heading_no_h1] else []"] Cons
    by (simp add: check_heading_hierarchy_def)
qed

lemma jumps_none:
  "\<forall>i<length ls. fst (ls ! i) \<le> (p # map fst ls) ! i + 1 \<Longrightarrow> jumps p ls = []"
proof (induction ls arbitrary: p)
  case Nil
  then show ?case by simp
next
  case (Cons x ls)
  obtain l h where x: "x = (l, h)" by (cases x)
  from Cons.prems have first: "l \<le> p + 1" using x by auto
  have "\<forall>i<length ls. fst (ls ! i) \<le> (l # map fst ls) ! i + 1"
  proof (intro allI impI)
    fix i assume "i < length ls"
    then have "Suc i < length (x # ls)" by simp
    with Cons.prems have "fst ((x # ls) ! Suc i) \<le> (p # map fst (x # ls)) ! Suc i + 1" by blast
    then show "fst (ls ! i) \<le> (l # map fst ls) ! i + 1" using x by simp
  qed
  then have "jumps l ls = []" by (rule Cons.IH)
  then show ?case using first x by simp
qed

lemma skipped_rule_id [simp]: "rule_id (heading_skipped_level p l h) = ''heading-skipped-level''"
  by (simp add: heading_skipped_level_def)

lemma filter_skipped_map:
  "filter (\<lambda>i. rule_id i = ''heading-skipped-level'') (map (\<lambda>(p, l, h). heading_skipped_level p l h) js)
     = map (\<lambda>(p, l, h). heading_skipped_level p l h) js"
  by (induction js) auto

text \<open>
  On every heading list in which no two-character tag starting with \<open>h\<close> ends in a
  non-digit, the check returns, and its \<open>heading-skipped-level\<close> issues are, in order,
  one per jump of the tracked level; there is none when no level exceeds its predecessor
  by more than one.
\<close>

lemma check_heading_hierarchy_skipped_levels:
  assumes "\<forall>h\<in>set headings. \<not> int_raises h"
  shows "\<exists>issues. check_heading_hierarchy headings = Inr issues
           \<and> filter (\<lambda>i. rule_id i = ''heading-skipped-level'') issues
               = map (\<lambda>(previous_level, l, h). heading_skipped_level previous_level l h)
                     (jumps 0 (levelled headings))
           \<and> ((\<forall>i<length (levelled headings).
                  fst (levelled headings ! i) \<le> (0 # map fst (levelled headings)) ! i + 1)
                \<longrightarrow> filter (\<lambda>i. rule_id i = ''heading-skipped-level'') issues = [])"
proof (cases headings)
  case Nil
  then show ?thesis by (simp add: check_heading_hierarchy_def levelled_Nil)
next
  case (Cons first rest)
  let ?start = "if tag first \<noteq> Some ''h1'' then [heading_no_h1] else []"
  let ?sk = "map (\<lambda>(p, l, h). heading_skipped_level p l h) (jumps 0 (levelled headings))"
  have run: "check_heading_hierarchy headings = Inr (?start @ ?sk)"
    using heading_loop_jumps [OF assms, of 0 ?start] Cons
    by (simp add: check_heading_hierarchy_def)
  have start: "filter (\<lambda>i. rule_id i = ''heading-skipped-level'') ?start = []"
    by (simp add: heading_no_h1_def)
  have flt: "filter (\<lambda>i. rule_id i = ''heading-skipped-level'') (?start @ ?sk) = ?sk"
    unfolding filter_append start using filter_skipped_map [of "jumps 0 (levelled headings)"] by simp
  have none: "(\<forall>i<length (levelled headings).
                  fst (levelled headings ! i) \<le> (0 # map fst (levelled headings)) ! i + 1)
                \<longrightarrow> filter (\<lambda>i. rule_id i = ''heading-skipped-level'') (?start @ ?sk) = []"
  proof
    assume "\<forall>i<length (levelled headings).
              fst (levelled headings ! i) \<le> (0 # map fst (levelled headings)) ! i + 1"
    then have "jumps 0 (levelled headings) = []" by (rule jumps_none)
    then show "filter (\<lambda>i. rule_id i = ''heading-skipped-level'') (?start @ ?sk) = []"
      unfolding flt by simp
  qed
  from run flt none show ?thesis by blast
qed

text \<open>
  Claim C3. The checkers are to return normally on malformed input, a heading tagged
  \<open>hx\<close> included. On the one-element heading list \<open>[hx]\<close> the test
  \<open>tag.startswith("h") and len(tag) == 2\<close> lets the tag through and \<open>int(tag[1])\<close> raises
  \<open>ValueError\<close>.
\<close>

theorem check_heading_hierarchy_hx_raises:
  "check_heading_hierarchy [\<lparr>tag = Some ''hx'', attributes = None, text_content = None\<rparr>]
     = Inl ValueError"
  by (simp add: check_heading_hierarchy_def int_of_char_def)

text \<open>
  Claim C4. Each heading whose level exceeds the tracked previous level by more than one
  is to yield one \<open>heading-skipped-level\<close> error, malformed headings being passed over.
  In the list \<open>[h1, hx, h3]\<close> the tag \<open>hx\<close> is malformed and \<open>h3\<close> follows \<open>h1\<close>, one jump
  from level 1 to level 3; the check raises \<open>ValueError\<close> at \<open>hx\<close> and reports nothing.
\<close>

theorem check_heading_hierarchy_h1_hx_h3_raises:
  "heading_level \<lparr>tag = Some ''hx'', attributes = None, text_content = None\<rparr> = None
   \<and> jumps 0 (levelled [\<lparr>tag = Some ''h1'', attributes = None, text_content = None\<rparr>,
                         \<lparr>tag = Some ''hx'', attributes = None, text_content = None\<rparr>,
                         \<lparr>tag = Some ''h3'', attributes = None, text_content = None\<rparr>])
       = [(1, 3, \<lparr>tag = Some ''h3'', attributes = None, text_content = None\<rparr>)]
   \<and> check_heading_hierarchy
         [\<lparr>tag = Some ''h1'', attributes = None, text_content = None\<rparr>,
          \<lparr>tag = Some ''hx'', attributes = None, text_content = None\<rparr>,
          \<lparr>tag = Some ''h3'', attributes = None, text_content = None\<rparr>]
       = Inl ValueError"
  by (simp add: check_heading_hierarchy_def int_of_char_def heading_level_def levelled_def
        List.map_filter_simps)

section \<open>Properties of the server passes\<close>

lemma extract_headings_ok:
  "\<forall>e\<in>set es. tag e \<noteq> None \<Longrightarrow>
   \<exists>hs. extract_headings es = Inr hs
        \<and> (\<forall>h\<in>set hs. tag h \<in> Some ` set [''h1'', ''h2'', ''h3'', ''h4'', ''h5'', ''h6''])"
proof (induction es)
  case Nil
  then show ?case by simp
next
  case (Cons e es)
  then obtain hs where hs: "extract_headings es = Inr hs"
      "\<forall>h\<in>set hs. tag h \<in> Some ` set [''h1'', ''h2'', ''h3'', ''h4'', ''h5'', ''h6'']"
    by auto
  from Cons.prems obtain t where t: "tag e = Some t" by auto
  show ?case
  proof (cases "t \<in> set [''h1'', ''h2'', ''h3'', ''h4'', ''h5'', ''h6'']")
    case True
    then have "tag e \<in> Some ` set [''h1'', ''h2'', ''h3'', ''h4'', ''h5'', ''h6'']"
      using t by blast
    then show ?thesis using hs t True by simp
  next
    case False
    then show ?thesis using hs t by simp
  qed
qed

lemma h1_to_h6_int_ok:
  "tag h \<in> Some ` set [''h1'', ''h2'', ''h3'', ''h4'', ''h5'', ''h6''] \<Longrightarrow> \<not> int_raises h"
  by (auto simp add: int_raises_def)

lemma headings_pass:
  assumes "\<forall>e\<in>set es. tag e \<noteq> None"
  shows "\<exists>hs his. extract_headings es = Inr hs \<and> check_heading_hierarchy hs = Inr his
           \<and> (\<forall>i\<in>set his. rule_id i \<in> {''heading-no-h1'', ''heading-skipped-level''})"
proof -
  from extract_headings_ok [OF assms] obtain hs where hs: "extract_headings es = Inr hs"
      "\<forall>h\<in>set hs. tag h \<in> Some ` set [''h1'', ''h2'', ''h3'', ''h4'', ''h5'', ''h6'']"
    by blast
  then have "\<forall>h\<in>set hs. \<not> int_raises h" using h1_to_h6_int_ok by blast
  from check_heading_hierarchy_returns [OF this] obtain js where
    js: "check_heading_hierarchy hs =
           Inr ((if hs \<noteq> [] \<and> tag (hd hs) \<noteq> Some ''h1'' then [heading_no_h1] else [])
                @ map (\<lambda>(p, l, h). heading_skipped_level p l h) js)" by blast
  let ?his = "(if hs \<noteq> [] \<and> tag (hd hs) \<noteq> Some ''h1'' then [heading_no_h1] else [])
                @ map (\<lambda>(p, l, h). heading_skipped_level p l h) js"
  have "\<forall>i\<in>set ?his. rule_id i \<in> {''heading-no-h1'', ''heading-skipped-level''}"
    by (auto simp add: heading_no_h1_def)
  with hs(1) js show ?thesis by blast
qed

lemma element_issues_rule_ids:
  "i \<in> set (element_issues e) \<Longrightarrow>
   rule_id i \<in> {''img-alt-missing'', ''img-alt-empty'', ''form-no-label'', ''link-no-text'',
                 ''link-generic-text'', ''html-no-lang'', ''aria-invalid-role'', ''keyboard-no-access''}"
  unfolding element_issues_def opt_list_def set_append Un_iff
  apply (elim disjE)
  subgoal by (auto simp add: check_img_alt_text_def split: option.splits if_splits)
  subgoal by (auto simp add: check_form_labels_def Let_def split: option.splits if_splits)
  subgoal by (auto simp add: check_link_text_def Let_def split: option.splits if_splits)
  subgoal by (auto simp add: check_language_attribute_def Let_def split: option.splits if_splits)
  subgoal by (auto simp add: check_aria_roles_def Let_def split: option.splits if_splits)
  subgoal by (auto simp add: check_keyboard_accessibility_def Let_def split: option.splits if_splits)
  done

lemma element_issues_not_touch:
  "i \<in> set (element_issues e) \<Longrightarrow> rule_id i \<noteq> ''touch-target-size''"
  using element_issues_rule_ids [of i e] by auto

lemma heading_ids_not_touch:
  "rule_id i \<in> {''heading-no-h1'', ''heading-skipped-level''} \<Longrightarrow> rule_id i \<noteq> ''touch-target-size''"
  by auto

lemma element_issues_six:
  "element_issues el =
     List.map_filter (\<lambda>check. check el)
       [check_img_alt_text, check_form_labels, check_link_text, check_language_attribute,
        check_aria_roles, check_keyboard_accessibility]"
  by (simp add: element_issues_def opt_list_def List.map_filter_simps split: option.splits)

lemma info_filter:
  "filter (\<lambda>i. severity i \<noteq> ERROR \<and> severity i \<noteq> WARNING) (xs :: AccessibilityIssue list)
     = filter (\<lambda>i. severity i = INFO) xs"
proof (rule filter_cong [OF refl])
  fix i assume "i \<in> set xs"
  show "(severity i \<noteq> ERROR \<and> severity i \<noteq> WARNING) = (severity i = INFO)"
    by (cases "severity i") simp_all
qed

text \<open>
  Claim C2, where it fails: for a \<open>button\<close> element the touch-target checker has an
  advisory, and the pass \<open>check_html_accessibility\<close> returns no issue at all: it never
  calls that checker.
\<close>

theorem check_html_accessibility_button_counterexample:
  "check_touch_target_size \<lparr>tag = Some ''button'', attributes = Some Map.empty, text_content = Some ''OK''\<rparr>
     = Some \<lparr>rule_id = ''touch-target-size'', severity = INFO, wcag_level = Level_AAA,
             message = ''Verify touch target is at least 44x44 CSS pixels'',
             element = Some \<lparr>tag = Some ''button'', attributes = Some Map.empty, text_content = Some ''OK''\<rparr>,
             suggestion = Some ''Ensure interactive elements are large enough for touch interaction'',
             wcag_criteria = Some ''2.5.5''\<rparr>
   \<and> check_html_accessibility
         [\<lparr>tag = Some ''button'', attributes = Some Map.empty, text_content = Some ''OK''\<rparr>] True
       = Inr \<lparr>total_issues = 0, errors = [], warnings = [], info = [],
              summary_errors = 0, summary_warnings = 0, summary_info = 0\<rparr>"
  by (simp add: check_touch_target_size_def check_html_accessibility_def element_issues_def opt_list_def
        check_img_alt_text_def check_form_labels_def check_link_text_def check_language_attribute_def
        check_aria_roles_def check_keyboard_accessibility_def attr_def truthy_def strip_def isspace_def
        lower_def lower_char_def generic_texts_def check_heading_hierarchy_def Let_def)

text \<open>
  Claim C2, amended. On every element list the parser can build,
  \<open>check_html_accessibility\<close> returns; the issues it reports are those of the six
  per-element checkers (image alt, form labels, link text, language, ARIA roles,
  keyboard), element by element and in that order, followed by those of the heading
  check on the extracted headings (the errors alone when warnings are excluded), sorted
  into errors, warnings and info; the touch-target checker is not among them, and no
  reported issue is a \<open>touch-target-size\<close> advisory.
\<close>

theorem check_html_accessibility_no_touch_target:
  assumes "\<forall>e\<in>set elements. tag e \<noteq> None"
  shows "\<exists>r headings heading_issues.
           extract_headings elements = Inr headings
         \<and> check_heading_hierarchy headings = Inr heading_issues
         \<and> check_html_accessibility elements include_warnings = Inr r
         \<and> (let issues =
                   concat (map (\<lambda>el. List.map_filter (\<lambda>check. check el)
                                        [check_img_alt_text, check_form_labels, check_link_text,
                                         check_language_attribute, check_aria_roles,
                                         check_keyboard_accessibility]) elements)
                   @ heading_issues;
                 kept = (if include_warnings then issues
                         else filter (\<lambda>i. severity i = ERROR) issues)
             in errors r = map to_issue_dict (filter (\<lambda>i. severity i = ERROR) kept)
              \<and> warnings r = map to_issue_dict (filter (\<lambda>i. severity i = WARNING) kept)
              \<and> info r = map to_issue_dict (filter (\<lambda>i. severity i = INFO) kept)
              \<and> total_issues r = length kept)
         \<and> (\<forall>d\<in>set (errors r @ warnings r @ info r). d_rule_id d \<noteq> ''touch-target-size'')"
proof -
  from headings_pass [OF assms] obtain hs his where
    hs: "extract_headings elements = Inr hs" and his: "check_heading_hierarchy hs = Inr his"
    and ids: "\<forall>i\<in>set his. rule_id i \<in> {''heading-no-h1'', ''heading-skipped-level''}" by blast
  define issues where "issues = concat (map element_issues elements) @ his"
  define kept where
    "kept = (if include_warnings then issues else filter (\<lambda>i. severity i = ERROR) issues)"
  define r where
    "r = \<lparr>total_issues = length kept,
          errors = map to_issue_dict (filter (\<lambda>i. severity i = ERROR) kept),
          warnings = map to_issue_dict (filter (\<lambda>i. severity i = WARNING) kept),
          info = map to_issue_dict (filter (\<lambda>i. severity i = INFO) kept),
          summary_errors = length (filter (\<lambda>i. severity i = ERROR) kept),
          summary_warnings = length (filter (\<lambda>i. severity i = WARNING) kept),
          summary_info = length (filter (\<lambda>i. severity i = INFO) kept)\<rparr>"
  have k: "(if \<not> include_warnings then filter (\<lambda>i. severity i = ERROR) issues else issues) = kept"
    by (simp add: kept_def)
  have run: "check_html_accessibility elements include_warnings = Inr r"
    unfolding check_html_accessibility_def Let_def hs his sum.case issues_def [symmetric] k
              info_filter r_def
    by simp
  have six: "issues =
               concat (map (\<lambda>el. List.map_filter (\<lambda>check. check el)
                                        [check_img_alt_text, check_form_labels, check_link_text,
                                         check_language_attribute, check_aria_roles,
                                         check_keyboard_accessibility]) elements) @ his"
    unfolding issues_def using element_issues_six by presburger
  have all: "\<forall>i\<in>set issues. rule_id i \<noteq> ''touch-target-size''"
    unfolding issues_def using ids element_issues_not_touch heading_ids_not_touch by auto
  have keptn: "\<forall>i\<in>set kept. rule_id i \<noteq> ''touch-target-size''"
    unfolding kept_def using all by auto
  have d: "\<And>P. \<forall>d\<in>set (map to_issue_dict (filter P kept)). d_rule_id d \<noteq> ''touch-target-size''"
    using keptn by (auto simp add: to_issue_dict_def)
  have no: "\<forall>d\<in>set (errors r @ warnings r @ info r). d_rule_id d \<noteq> ''touch-target-size''"
    unfolding r_def check_result.select_convs set_append ball_Un using d by blast
  have shape: "let issues' =
                   concat (map (\<lambda>el. List.map_filter (\<lambda>check. check el)
                                        [check_img_alt_text, check_form_labels, check_link_text,
                                         check_language_attribute, check_aria_roles,
                                         check_keyboard_accessibility]) elements)
                   @ his;
                 kept' = (if include_warnings then issues'
                         else filter (\<lambda>i. severity i = ERROR) issues')
             in errors r = map to_issue_dict (filter (\<lambda>i. severity i = ERROR) kept')
              \<and> warnings r = map to_issue_dict (filter (\<lambda>i. severity i = WARNING) kept')
              \<and> info r = map to_issue_dict (filter (\<lambda>i. severity i = INFO) kept')
              \<and> total_issues r = length kept'"
    unfolding Let_def six [symmetric] kept_def [symmetric] by (simp add: r_def)
  from hs his run shape no show ?thesis by blast
qed

theorem check_html_accessibility_no_touch_target_witness:
  "\<exists>r. check_html_accessibility
         [\<lparr>tag = Some ''img'', attributes = Some Map.empty, text_content = Some ''''\<rparr>,
          \<lparr>tag = Some ''button'', attributes = Some Map.empty, text_content = Some ''OK''\<rparr>] True = Inr r
       \<and> map d_rule_id (errors r) = [''img-alt-missing'']
       \<and> warnings r = [] \<and> info r = [] \<and> total_issues r = 1
       \<and> (\<forall>d\<in>set (errors r @ warnings r @ info r). d_rule_id d \<noteq> ''touch-target-size'')"
proof -
  let ?els = "[\<lparr>tag = Some ''img'', attributes = Some Map.empty, text_content = Some ''''\<rparr>,
               \<lparr>tag = Some ''button'', attributes = Some Map.empty, text_content = Some ''OK''\<rparr>]"
  have tags: "\<forall>e\<in>set ?els. tag e \<noteq> None" by simp
  from check_html_accessibility_no_touch_target [OF tags, of True]
  obtain r hs his where
    hs: "extract_headings ?els = Inr hs" and his: "check_heading_hierarchy hs = Inr his"
    and run: "check_html_accessibility ?els True = Inr r"
    and shape: "let issues =
                   concat (map (\<lambda>el. List.map_filter (\<lambda>check. check el)
                                        [check_img_alt_text, check_form_labels, check_link_text,
                                         check_language_attribute, check_aria_roles,
                                         check_keyboard_accessibility]) ?els)
                   @ his;
                 kept = (if True then issues
                         else filter (\<lambda>i. severity i = ERROR) issues)
             in errors r = map to_issue_dict (filter (\<lambda>i. severity i = ERROR) kept)
              \<and> warnings r = map to_issue_dict (filter (\<lambda>i. severity i = WARNING) kept)
              \<and> info r = map to_issue_dict (filter (\<lambda>i. severity i = INFO) kept)
              \<and> total_issues r = length kept"
    and no: "\<forall>d\<in>set (errors r @ warnings r @ info r). d_rule_id d \<noteq> ''touch-target-size''"
    by blast
  have "hs = []" using hs by simp
  then have e: "his = []" using his by (simp add: check_heading_hierarchy_def)
  have vals: "map d_rule_id (errors r) = [''img-alt-missing''] \<and> warnings r = [] \<and> info r = []
              \<and> total_issues r = 1"
    using shape unfolding e
    by (simp add: Let_def List.map_filter_simps check_img_alt_text_def check_form_labels_def
          check_link_text_def check_language_attribute_def check_aria_roles_def
          check_keyboard_accessibility_def attr_def truthy_def strip_def isspace_def
          lower_def lower_char_def generic_texts_def to_issue_dict_def)
  show ?thesis
    apply (rule exI [of _ r])
    using run vals no apply (elim conjE)
    apply (intro conjI)
    apply assumption+
    done
qed

lemma round1_100: "round1 100 = 100"
  by (simp add: round1_def round_half_even_def)

lemma required_criteria_set:
  "up \<in> {''A'', ''AA'', ''AAA''} \<Longrightarrow>
   set (required_criteria cat up) = {c \<in> set cat. level c \<in> cumulative_levels up}"
  by (auto simp add: required_criteria_def get_criteria_by_level_def cumulative_levels_def)

lemma required_criteria_distinct:
  "distinct cat \<Longrightarrow> distinct (required_criteria cat up)"
  by (auto simp add: required_criteria_def get_criteria_by_level_def)

lemma required_criteria_card:
  assumes "distinct (map number cat)" and "up \<in> {''A'', ''AA'', ''AAA''}"
  shows "length (required_criteria cat up) = card {c \<in> set cat. level c \<in> cumulative_levels up}"
proof -
  from assms(1) have "distinct cat" by (rule distinct_map [THEN iffD1, THEN conjunct1])
  then have "distinct (required_criteria cat up)" by (rule required_criteria_distinct)
  then have "card (set (required_criteria cat up)) = length (required_criteria cat up)"
    by (rule distinct_card)
  then show ?thesis using required_criteria_set [OF assms(2), of cat] by simp
qed

lemma validate_returns:
  assumes up: "upper tlevel \<in> {''A'', ''AA'', ''AAA''}"
      and tags: "\<forall>e\<in>set elements. tag e \<noteq> None"
  shows "\<exists>vs. validate_wcag_compliance_level cat elements tlevel sug =
           Inr (Inr \<lparr>target_level = upper tlevel,
                     compliance_status = (if length vs = 0 then ''PASS'' else ''FAIL''),
                     compliance_percentage =
                       round1 (if length (required_criteria cat (upper tlevel)) > 0
                               then (of_nat (length (required_criteria cat (upper tlevel)))
                                       - of_nat (card (set (map criterion vs))))
                                    / of_nat (length (required_criteria cat (upper tlevel))) * 100
                               else 100),
                     total_required_criteria = length (required_criteria cat (upper tlevel)),
                     violated_criteria = card (set (map criterion vs)),
                     total_violations = length vs,
                     violations = vs\<rparr>)"
proof -
  from headings_pass [OF tags] obtain hs his where
    hs: "extract_headings elements = Inr hs" and his: "check_heading_hierarchy hs = Inr his"
    by blast
  have nup: "(upper tlevel \<notin> {''A'', ''AA'', ''AAA''}) = False" using up by simp
  show ?thesis
    unfolding validate_wcag_compliance_level_def Let_def nup if_False hs his sum.case
    by (rule exI, rule refl)
qed

text \<open>
  Claim C1, amended. For a target level that is A, AA or AAA in any letter case, and
  any element list of the parser, \<open>validate_wcag_compliance_level\<close> returns a report in
  which: the required count is the number of catalog criteria of the cumulative levels;
  the violated count is the number of distinct criterion numbers among the violations;
  the percentage is \<open>(required - violated) / required * 100\<close>, or 100 when nothing is
  required, rounded to one decimal place; the status is \<open>PASS\<close> exactly when there is
  no violation, and then the percentage is 100.
\<close>

theorem validate_wcag_compliance_level_percentage:
  assumes up: "upper tlevel \<in> {''A'', ''AA'', ''AAA''}"
      and tags: "\<forall>e\<in>set elements. tag e \<noteq> None"
  shows "\<exists>r. validate_wcag_compliance_level cat elements tlevel sug = Inr (Inr r)
           \<and> total_required_criteria r = length (required_criteria cat (upper tlevel))
           \<and> (distinct (map number cat) \<longrightarrow>
                total_required_criteria r
                  = card {c \<in> set cat. level c \<in> cumulative_levels (upper tlevel)})
           \<and> violated_criteria r = card (criterion ` set (violations r))
           \<and> compliance_percentage r
               = round1 (if total_required_criteria r = 0 then 100
                         else (of_nat (total_required_criteria r) - of_nat (violated_criteria r))
                              / of_nat (total_required_criteria r) * 100)
           \<and> (compliance_status r = ''PASS'' \<longleftrightarrow> violations r = [])
           \<and> (violations r = [] \<longrightarrow> compliance_percentage r = 100)"
proof -
  from validate_returns [OF up tags, of cat sug] obtain vs where
    ret: "validate_wcag_compliance_level cat elements tlevel sug =
           Inr (Inr \<lparr>target_level = upper tlevel,
                     compliance_status = (if length vs = 0 then ''PASS'' else ''FAIL''),
                     compliance_percentage =
                       round1 (if length (required_criteria cat (upper tlevel)) > 0
                               then (of_nat (length (required_criteria cat (upper tlevel)))
                                       - of_nat (card (set (map criterion vs))))
                                    / of_nat (length (required_criteria cat (upper tlevel))) * 100
                               else 100),
                     total_required_criteria = length (required_criteria cat (upper tlevel)),
                     violated_criteria = card (set (map criterion vs)),
                     total_violations = length vs,
                     violations = vs\<rparr>)" (is "_ = Inr (Inr ?r)")
    by blast
  have a: "total_required_criteria ?r = length (required_criteria cat (upper tlevel))" by simp
  have b: "distinct (map number cat) \<longrightarrow>
             total_required_criteria ?r
               = card {c \<in> set cat. level c \<in> cumulative_levels (upper tlevel)}"
    using required_criteria_card [OF _ up, of cat] by simp
  have c: "violated_criteria ?r = card (criterion ` set (violations ?r))" by simp
  have d: "compliance_percentage ?r
             = round1 (if total_required_criteria ?r = 0 then 100
                       else (of_nat (total_required_criteria ?r) - of_nat (violated_criteria ?r))
                            / of_nat (total_required_criteria ?r) * 100)"
    by simp
  have e: "compliance_status ?r = ''PASS'' \<longleftrightarrow> violations ?r = []" by simp
  have f: "violations ?r = [] \<longrightarrow> compliance_percentage ?r = 100"
    by (simp add: round1_100)
  from ret a b c d e f show ?thesis by blast
qed

theorem validate_wcag_compliance_level_percentage_witness:
  "upper ''aa'' \<in> {''A'', ''AA'', ''AAA''}
   \<and> (\<exists>r. validate_wcag_compliance_level
          [crit ''1.1.1'' ''Non-text Content'' ''A'', crit ''2.1.1'' ''Keyboard'' ''A'',
           crit ''1.4.3'' ''Contrast (Minimum)'' ''AA'']
          [\<lparr>tag = Some ''img'', attributes = Some Map.empty, text_content = Some ''''\<rparr>] ''aa'' True
        = Inr (Inr r)
      \<and> total_required_criteria r = 3
      \<and> violated_criteria r = card (criterion ` set (violations r))
      \<and> compliance_percentage r
               = round1 (if total_required_criteria r = 0 then 100
                         else (of_nat (total_required_criteria r) - of_nat (violated_criteria r))
                              / of_nat (total_required_criteria r) * 100)
      \<and> (compliance_status r = ''PASS'' \<longleftrightarrow> violations r = []))"
proof -
  have up: "upper ''aa'' \<in> {''A'', ''AA'', ''AAA''}"
    by (simp add: upper_def upper_char_def char_of_eq_iff)
  have tags: "\<forall>e\<in>set [\<lparr>tag = Some ''img'', attributes = Some Map.empty, text_content = Some ''''\<rparr>].
                tag e \<noteq> None" by simp
  have req: "length (required_criteria
          [crit ''1.1.1'' ''Non-text Content'' ''A'', crit ''2.1.1'' ''Keyboard'' ''A'',
           crit ''1.4.3'' ''Contrast (Minimum)'' ''AA''] (upper ''aa'')) = 3"
    by (simp add: upper_def upper_char_def char_of_eq_iff required_criteria_def
          get_criteria_by_level_def crit_def)
  from validate_wcag_compliance_level_percentage [OF up tags,
         of "[crit ''1.1.1'' ''Non-text Content'' ''A'', crit ''2.1.1'' ''Keyboard'' ''A'',
              crit ''1.4.3'' ''Contrast (Minimum)'' ''AA'']" True]
  show ?thesis using up req by (simp only:) blast
qed

lemma round1_two_thirds: "round1 (200 / 3) = 667 / 10"
proof -
  have "\<lfloor>2000 / 3 :: rat\<rfloor> = 666" by (simp add: floor_eq_iff)
  then show ?thesis by (simp add: round1_def round_half_even_def)
qed

text \<open>
  Claim C1, where it fails: with three required criteria and one of them violated the
  report carries 66.7, the rounding of \<open>(3 - 1) / 3 * 100\<close>, not that quotient.
\<close>

theorem validate_wcag_compliance_level_rounds_counterexample:
  "validate_wcag_compliance_level
     [crit ''1.1.1'' ''Non-text Content'' ''A'', crit ''2.1.1'' ''Keyboard'' ''A'',
      crit ''3.1.1'' ''Language of Page'' ''A'']
     [\<lparr>tag = Some ''img'', attributes = Some Map.empty, text_content = Some ''''\<rparr>] ''A'' False
   = Inr (Inr \<lparr>target_level = ''A'', compliance_status = ''FAIL'',
               compliance_percentage = 667 / 10,
               total_required_criteria = 3, violated_criteria = 1, total_violations = 1,
               violations =
                 [\<lparr>criterion = ''1.1.1'', criterion_title = ''Non-text Content'', criterion_level = ''A'',
                   issue = ''Image missing alt attribute'', v_severity = ''error'',
                   v_element = Some \<lparr>tag = Some ''img'', attributes = Some Map.empty,
                                      text_content = Some ''''\<rparr>,
                   v_suggestion = None\<rparr>]\<rparr>)
   \<and> ((3 - 1) / 3 * 100 :: rat) \<noteq> 667 / 10"
  by (simp add: validate_wcag_compliance_level_def upper_def upper_char_def required_criteria_def
        get_criteria_by_level_def get_criterion_def crit_def element_criterion_issues_def
        setdefault_append_def check_img_alt_text_def check_form_labels_def check_link_text_def
        check_language_attribute_def check_aria_roles_def check_keyboard_accessibility_def
        attr_def truthy_def check_heading_hierarchy_def build_violations_def make_violation_def
        severity_value_def round1_two_thirds Let_def)

section \<open>Properties of the contrast calculator\<close>

lemma is_hex_not_special:
  "is_hex c \<Longrightarrow> \<not> int_space c \<and> c \<noteq> CHR ''-'' \<and> c \<noteq> CHR ''+'' \<and> c \<noteq> CHR ''_''
                 \<and> c \<noteq> CHR ''x'' \<and> c \<noteq> CHR ''X'' \<and> c \<noteq> CHR ''#''"
  by (auto simp add: is_hex_def int_space_def Let_def)

lemma int16_two_hex:
  assumes "is_hex a" and "is_hex b"
  shows "int16 [a, b] = Inr (channel a b)"
  using is_hex_not_special [OF assms(1)] is_hex_not_special [OF assms(2)] assms
  by (simp add: int16_def channel_def Let_def)

lemma take_two:
  assumes "length (d::string) \<ge> 2"
  shows "take 2 d = [d ! 0, d ! 1]"
proof -
  from assms obtain a r where d: "d = a # r" by (cases d) auto
  with assms obtain b r' where "r = b # r'" by (cases r) auto
  with d show ?thesis by simp
qed

lemma six_chars:
  assumes "length (d::string) \<ge> 6"
  shows "take 2 d = [d ! 0, d ! 1] \<and> take 2 (drop 2 d) = [d ! 2, d ! 3]
         \<and> take 2 (drop 4 d) = [d ! 4, d ! 5]"
  using assms take_two [of d] take_two [of "drop 2 d"] take_two [of "drop 4 d"] by simp

lemma hex_to_rgb_prefix:
  assumes "six_hex_prefix s"
  shows "hex_to_rgb s =
           (let d = dropWhile (\<lambda>c. c = CHR ''#'') s
            in Inr (channel (d ! 0) (d ! 1), channel (d ! 2) (d ! 3), channel (d ! 4) (d ! 5)))"
proof -
  define d where "d = dropWhile (\<lambda>c. c = CHR ''#'') s"
  from assms have len: "length d \<ge> 6" and hex: "list_all is_hex (take 6 d)"
    by (simp_all add: six_hex_prefix_def d_def Let_def)
  have h: "\<And>i. i < 6 \<Longrightarrow> is_hex (d ! i)"
  proof -
    fix i :: nat assume i: "i < 6"
    then have "take 6 d ! i = d ! i" by simp
    moreover have "i < length (take 6 d)" using i len by simp
    ultimately show "is_hex (d ! i)" using hex by (metis list_all_length)
  qed
  have s1: "int16 (take 2 d) = Inr (channel (d ! 0) (d ! 1))"
    using six_chars [OF len] int16_two_hex [of "d ! 0" "d ! 1"] h by simp
  have s2: "int16 (take 2 (drop 2 d)) = Inr (channel (d ! 2) (d ! 3))"
    using six_chars [OF len] int16_two_hex [of "d ! 2" "d ! 3"] h by simp
  have s3: "int16 (take 2 (drop 4 d)) = Inr (channel (d ! 4) (d ! 5))"
    using six_chars [OF len] int16_two_hex [of "d ! 4" "d ! 5"] h by simp
  show ?thesis
    unfolding hex_to_rgb_def Let_def d_def [symmetric] s1 s2 s3 by simp
qed

lemma six_hex_digits_prefix:
  assumes "six_hex_digits s"
  shows "six_hex_prefix s"
proof (cases "take 1 s = ''#''")
  case True
  then obtain d where s: "s = CHR ''#'' # d" by (cases s) auto
  with assms have d: "length d = 6" "list_all is_hex d" by (simp_all add: six_hex_digits_def)
  then obtain a r where ar: "d = a # r" by (cases d) auto
  with d have "is_hex a" by simp
  then have "a \<noteq> CHR ''#''" using is_hex_not_special by blast
  then have "dropWhile (\<lambda>c. c = CHR ''#'') s = d" using s ar by simp
  then show ?thesis using d by (simp add: six_hex_prefix_def)
next
  case False
  with assms have d: "length s = 6" "list_all is_hex s" by (simp_all add: six_hex_digits_def)
  then obtain a r where ar: "s = a # r" by (cases s) auto
  with d have "is_hex a" by simp
  then have "a \<noteq> CHR ''#''" using is_hex_not_special by blast
  then have "dropWhile (\<lambda>c. c = CHR ''#'') s = s" using ar by simp
  then show ?thesis using d by (simp add: six_hex_prefix_def)
qed

text \<open>
  Claim C9. When the string without its leading \<open>#\<close>s has at least six characters, the
  first six of them hexadecimal digits, \<open>hex_to_rgb\<close> succeeds with the three channels
  those six digits spell: the result is that of the six-character prefix, whatever
  follows it, and \<open>evaluate_contrast\<close> succeeds on two such strings.
\<close>

theorem hex_to_rgb_truncates:
  assumes "six_hex_prefix s"
  shows "hex_to_rgb s =
           (let d = dropWhile (\<lambda>c. c = CHR ''#'') s
            in Inr (channel (d ! 0) (d ! 1), channel (d ! 2) (d ! 3), channel (d ! 4) (d ! 5)))
       \<and> hex_to_rgb s = hex_to_rgb (take 6 (dropWhile (\<lambda>c. c = CHR ''#'') s))
       \<and> (\<forall>t. six_hex_prefix t \<longrightarrow>
             (\<exists>res. evaluate_contrast s t fsize bold = Inr res)
           \<and> (\<exists>res. evaluate_contrast t s fsize bold = Inr res))"
proof -
  define d where "d = dropWhile (\<lambda>c. c = CHR ''#'') s"
  from assms have len: "length d \<ge> 6" and hex: "list_all is_hex (take 6 d)"
    by (simp_all add: six_hex_prefix_def d_def Let_def)
  then obtain a r where ar: "d = a # r" by (cases d) auto
  with hex have "is_hex a" by simp
  then have "a \<noteq> CHR ''#''" using is_hex_not_special by blast
  then have dd: "dropWhile (\<lambda>c. c = CHR ''#'') (take 6 d) = take 6 d" using ar by simp
  have p6: "six_hex_prefix (take 6 d)"
    using len hex by (simp add: six_hex_prefix_def dd)
  have one: "hex_to_rgb s =
           (let d = dropWhile (\<lambda>c. c = CHR ''#'') s
            in Inr (channel (d ! 0) (d ! 1), channel (d ! 2) (d ! 3), channel (d ! 4) (d ! 5)))"
    using assms by (rule hex_to_rgb_prefix)
  have one': "hex_to_rgb s =
           Inr (channel (d ! 0) (d ! 1), channel (d ! 2) (d ! 3), channel (d ! 4) (d ! 5))"
    using one unfolding d_def Let_def .
  have two: "hex_to_rgb s = hex_to_rgb (take 6 d)"
    using hex_to_rgb_prefix [OF p6] one' by (simp add: dd Let_def)
  have three: "\<forall>t. six_hex_prefix t \<longrightarrow>
             (\<exists>res. evaluate_contrast s t fsize bold = Inr res)
           \<and> (\<exists>res. evaluate_contrast t s fsize bold = Inr res)"
  proof (intro allI impI)
    fix t assume "six_hex_prefix t"
    from hex_to_rgb_prefix [OF this] hex_to_rgb_prefix [OF assms]
    show "(\<exists>res. evaluate_contrast s t fsize bold = Inr res)
           \<and> (\<exists>res. evaluate_contrast t s fsize bold = Inr res)"
      by (simp add: evaluate_contrast_def calculate_contrast_ratio_def Let_def)
  qed
  from one two three show ?thesis unfolding d_def by blast
qed

theorem hex_to_rgb_truncates_witness:
  "six_hex_prefix ''#FF8000FF''
   \<and> hex_to_rgb ''#FF8000FF'' = Inr (255, 128, 0)
   \<and> hex_to_rgb ''#FF8000FF'' = hex_to_rgb ''FF8000''"
proof -
  have p: "six_hex_prefix ''#FF8000FF''" by (simp add: six_hex_prefix_def is_hex_def)
  from hex_to_rgb_truncates [OF p, of 16 False]
  have e1: "hex_to_rgb ''#FF8000FF'' =
           (let d = dropWhile (\<lambda>c. c = CHR ''#'') ''#FF8000FF''
            in Inr (channel (d ! 0) (d ! 1), channel (d ! 2) (d ! 3), channel (d ! 4) (d ! 5)))"
    and e2: "hex_to_rgb ''#FF8000FF'' = hex_to_rgb (take 6 (dropWhile (\<lambda>c. c = CHR ''#'') ''#FF8000FF''))"
    by blast+
  have v: "hex_to_rgb ''#FF8000FF'' = Inr (255, 128, 0)"
    unfolding e1 by (simp add: channel_def hex_val_def)
  have t: "take 6 (dropWhile (\<lambda>c. c = CHR ''#'') ''#FF8000FF'') = ''FF8000''" by simp
  from p v e2 [unfolded t] show ?thesis by blast
qed

text \<open>
  Claim C7. For two well-formed six-digit colors the contrast ratio is
  \<open>(max Y1 Y2 + 0.05) / (min Y1 Y2 + 0.05)\<close> of their relative luminances, and swapping
  the two colors gives the same ratio.
\<close>

theorem calculate_contrast_ratio_symmetric:
  assumes "six_hex_digits a" and "six_hex_digits b"
  shows "\<exists>r1 g1 b1 r2 g2 b2.
           hex_to_rgb a = Inr (r1, g1, b1) \<and> hex_to_rgb b = Inr (r2, g2, b2)
         \<and> calculate_contrast_ratio a b =
             Inr ((max (rgb_to_relative_luminance r1 g1 b1) (rgb_to_relative_luminance r2 g2 b2) + 0.05)
                  / (min (rgb_to_relative_luminance r1 g1 b1) (rgb_to_relative_luminance r2 g2 b2) + 0.05))
         \<and> calculate_contrast_ratio b a = calculate_contrast_ratio a b"
proof -
  from hex_to_rgb_prefix [OF six_hex_digits_prefix [OF assms(1)]]
  obtain r1 g1 b1 where a: "hex_to_rgb a = Inr (r1, g1, b1)" by (simp add: Let_def)
  from hex_to_rgb_prefix [OF six_hex_digits_prefix [OF assms(2)]]
  obtain r2 g2 b2 where b: "hex_to_rgb b = Inr (r2, g2, b2)" by (simp add: Let_def)
  have ab: "calculate_contrast_ratio a b =
             Inr ((max (rgb_to_relative_luminance r1 g1 b1) (rgb_to_relative_luminance r2 g2 b2) + 0.05)
                  / (min (rgb_to_relative_luminance r1 g1 b1) (rgb_to_relative_luminance r2 g2 b2) + 0.05))"
    by (simp add: calculate_contrast_ratio_def a b Let_def)
  have ba: "calculate_contrast_ratio b a = calculate_contrast_ratio a b"
    by (simp add: calculate_contrast_ratio_def a b Let_def max.commute min.commute)
  from a b ab ba show ?thesis by blast
qed

theorem calculate_contrast_ratio_symmetric_witness:
  "six_hex_digits ''#000000'' \<and> six_hex_digits ''FFFFFF''
   \<and> calculate_contrast_ratio ''FFFFFF'' ''#000000'' = calculate_contrast_ratio ''#000000'' ''FFFFFF''"
proof -
  have a: "six_hex_digits ''#000000''" by (simp add: six_hex_digits_def is_hex_def)
  have b: "six_hex_digits ''FFFFFF''" by (simp add: six_hex_digits_def is_hex_def)
  from calculate_contrast_ratio_symmetric [OF a b] a b show ?thesis by blast
qed

lemma int_space_not_special:
  "int_space c \<Longrightarrow> \<not> is_hex c \<and> c \<noteq> CHR ''-'' \<and> c \<noteq> CHR ''+'' \<and> c \<noteq> CHR ''_''
                 \<and> c \<noteq> CHR ''x'' \<and> c \<noteq> CHR ''X'' \<and> c \<noteq> CHR ''0''"
  by (auto simp add: is_hex_def int_space_def Let_def)

lemma special_chars [simp]:
  "is_hex (CHR ''0'')" "\<not> is_hex (CHR ''-'')" "\<not> is_hex (CHR ''+'')" "\<not> is_hex (CHR ''_'')"
  "\<not> is_hex (CHR ''x'')" "\<not> is_hex (CHR ''X'')"
  "\<not> int_space (CHR ''-'')" "\<not> int_space (CHR ''+'')" "\<not> int_space (CHR ''_'')"
  "\<not> int_space (CHR ''x'')" "\<not> int_space (CHR ''X'')" "\<not> int_space (CHR ''0'')"
  by (simp_all add: is_hex_def int_space_def)

lemma int16_one:
  "(\<exists>v. int16 [a] = Inr v) \<longleftrightarrow> is_hex a"
proof (cases "is_hex a")
  case True
  then show ?thesis using is_hex_not_special [OF True] by (simp add: int16_def Let_def)
next
  case False
  then show ?thesis
    by (cases "int_space a") (auto simp add: int16_def Let_def dest: int_space_not_special)
qed

lemma int16_empty: "int16 [] = Inl ValueError"
  by (simp add: int16_def)

lemma int16_space_hex: "int_space a \<Longrightarrow> is_hex b \<Longrightarrow> \<exists>v. int16 [a, b] = Inr v"
  using is_hex_not_special [of b] int_space_not_special [of a]
  by (simp add: int16_def Let_def)

lemma int16_hex_space: "is_hex a \<Longrightarrow> int_space b \<Longrightarrow> \<exists>v. int16 [a, b] = Inr v"
  using is_hex_not_special [of a] int_space_not_special [of b]
  by (simp add: int16_def Let_def)

lemma int16_minus_hex: "is_hex b \<Longrightarrow> \<exists>v. int16 [CHR ''-'', b] = Inr v"
  using is_hex_not_special [of b]
  by (simp add: int16_def Let_def)

lemma int16_plus_hex: "is_hex b \<Longrightarrow> \<exists>v. int16 [CHR ''+'', b] = Inr v"
  using is_hex_not_special [of b]
  by (simp add: int16_def Let_def)

lemma int16_hex_other:
  "is_hex a \<Longrightarrow> \<not> is_hex b \<Longrightarrow> \<not> int_space b \<Longrightarrow> int16 [a, b] = Inl ValueError"
  using is_hex_not_special [of a]
  by (simp add: int16_def Let_def)

lemma int16_other:
  "\<not> is_hex a \<Longrightarrow> \<not> int_space a \<Longrightarrow> a \<noteq> CHR ''-'' \<Longrightarrow> a \<noteq> CHR ''+'' \<Longrightarrow>
   int16 [a, b] = Inl ValueError"
  by (simp add: int16_def Let_def)

lemma int16_space_space:
  "int_space a \<Longrightarrow> \<not> is_hex b \<Longrightarrow> int_space b \<Longrightarrow> int16 [a, b] = Inl ValueError"
  using int_space_not_special [of a] int_space_not_special [of b]
  by (simp add: int16_def Let_def)

lemma int16_space_other:
  "int_space a \<Longrightarrow> \<not> is_hex b \<Longrightarrow> \<not> int_space b \<Longrightarrow> int16 [a, b] = Inl ValueError"
  using int_space_not_special [of a]
  by (simp add: int16_def Let_def)

lemma int16_minus_other: "\<not> is_hex b \<Longrightarrow> int16 [CHR ''-'', b] = Inl ValueError"
  by (simp add: int16_def Let_def)

lemma int16_plus_other: "\<not> is_hex b \<Longrightarrow> int16 [CHR ''+'', b] = Inl ValueError"
  by (simp add: int16_def Let_def)

lemma int16_two:
  "(\<exists>v. int16 [a, b] = Inr v) \<longleftrightarrow>
     (is_hex a \<and> is_hex b) \<or> ((a = CHR ''-'' \<or> a = CHR ''+'' \<or> int_space a) \<and> is_hex b)
     \<or> (is_hex a \<and> int_space b)"
proof (cases "is_hex a")
  case ha: True
  then have na: "\<not> int_space a" "a \<noteq> CHR ''-''" "a \<noteq> CHR ''+''"
    using is_hex_not_special by blast+
  show ?thesis
  proof (cases "is_hex b")
    case True
    then show ?thesis using ha int16_two_hex [of a b] by simp
  next
    case hb: False
    show ?thesis
    proof (cases "int_space b")
      case True
      then show ?thesis using ha int16_hex_space [of a b] by blast
    next
      case False
      have "int16 [a, b] = Inl ValueError" using ha hb False by (rule int16_hex_other)
      then show ?thesis using hb False by simp
    qed
  qed
next
  case nha: False
  show ?thesis
  proof (cases "int_space a")
    case sa: True
    show ?thesis
    proof (cases "is_hex b")
      case True
      then show ?thesis using sa int16_space_hex [of a b] by blast
    next
      case hb: False
      have "int16 [a, b] = Inl ValueError"
        using sa hb int16_space_space [of a b] int16_space_other [of a b] by blast
      then show ?thesis using hb nha by simp
    qed
  next
    case nsa: False
    show ?thesis
    proof (cases "is_hex b")
      case hb: True
      show ?thesis
      proof (cases "a = CHR ''-'' \<or> a = CHR ''+''")
        case True
        then show ?thesis using hb int16_minus_hex [of b] int16_plus_hex [of b] by blast
      next
        case False
        then have "int16 [a, b] = Inl ValueError" using nha nsa int16_other [of a b] by blast
        then show ?thesis using False nha nsa by simp
      qed
    next
      case hb: False
      have "int16 [a, b] = Inl ValueError"
        using nha nsa hb int16_other [of a b] int16_minus_other [of b] int16_plus_other [of b]
        by blast
      then show ?thesis using hb nha by simp
    qed
  qed
qed

lemma int16_slice:
  assumes "length sl \<le> 2"
  shows "(\<exists>v. int16 sl = Inr v) \<longleftrightarrow> slice_ok sl"
proof (cases sl)
  case Nil
  then show ?thesis by (simp add: int16_empty slice_ok_def)
next
  case (Cons a r)
  note sl = this
  show ?thesis
  proof (cases r)
    case Nil
    then show ?thesis using sl int16_one [of a] by (simp add: slice_ok_def)
  next
    case (Cons b r')
    with assms sl have "r' = []" by simp
    then show ?thesis using Cons sl int16_two [of a b] by (simp add: slice_ok_def)
  qed
qed

lemma sum_if_shape:
  "(if C then Inl ValueError else Inr X) = Inl ValueError
   \<or> (\<exists>v. (if C then Inl ValueError else Inr X) = Inr v)"
  by simp

lemma int16_cases: "int16 s = Inl ValueError \<or> (\<exists>v. int16 s = Inr v)"
  unfolding int16_def Let_def by (rule sum_if_shape)

lemma hex_to_rgb_iff: "(\<exists>rgb. hex_to_rgb s = Inr rgb) \<longleftrightarrow> accepted s"
proof -
  define d where "d = dropWhile (\<lambda>c. c = CHR ''#'') s"
  have a: "(\<exists>v. int16 (take 2 d) = Inr v) \<longleftrightarrow> slice_ok (take 2 d)"
    by (rule int16_slice) simp
  have b: "(\<exists>v. int16 (take 2 (drop 2 d)) = Inr v) \<longleftrightarrow> slice_ok (take 2 (drop 2 d))"
    by (rule int16_slice) simp
  have c: "(\<exists>v. int16 (take 2 (drop 4 d)) = Inr v) \<longleftrightarrow> slice_ok (take 2 (drop 4 d))"
    by (rule int16_slice) simp
  have "(\<exists>rgb. hex_to_rgb s = Inr rgb) \<longleftrightarrow>
          (\<exists>v. int16 (take 2 d) = Inr v) \<and> (\<exists>v. int16 (take 2 (drop 2 d)) = Inr v)
          \<and> (\<exists>v. int16 (take 2 (drop 4 d)) = Inr v)"
    unfolding hex_to_rgb_def Let_def d_def [symmetric]
    by (cases "int16 (take 2 d)"; cases "int16 (take 2 (drop 2 d))"; cases "int16 (take 2 (drop 4 d))")
       simp_all
  then show ?thesis unfolding accepted_def Let_def d_def [symmetric] a b c .
qed

lemma hex_to_rgb_cases: "hex_to_rgb s = Inl ValueError \<or> (\<exists>rgb. hex_to_rgb s = Inr rgb)"
proof -
  define d where "d = dropWhile (\<lambda>c. c = CHR ''#'') s"
  show ?thesis
    unfolding hex_to_rgb_def Let_def d_def [symmetric]
    using int16_cases [of "take 2 d"] int16_cases [of "take 2 (drop 2 d)"]
          int16_cases [of "take 2 (drop 4 d)"]
    by (elim disjE exE) simp_all
qed

lemma hex_to_rgb_fails_iff: "hex_to_rgb s = Inl ValueError \<longleftrightarrow> \<not> accepted s"
  using hex_to_rgb_iff [of s] hex_to_rgb_cases [of s] by auto

lemma evaluate_contrast_iff:
  "(\<exists>res. evaluate_contrast fg bg fsize bold = Inr res) \<longleftrightarrow> accepted fg \<and> accepted bg"
  unfolding hex_to_rgb_iff [symmetric]
  by (cases "hex_to_rgb fg"; cases "hex_to_rgb bg")
     (auto simp add: evaluate_contrast_def calculate_contrast_ratio_def Let_def)

lemma evaluate_contrast_cases:
  "evaluate_contrast fg bg fsize bold = Inl ValueError
   \<or> (\<exists>res. evaluate_contrast fg bg fsize bold = Inr res)"
  using hex_to_rgb_cases [of fg] hex_to_rgb_cases [of bg]
  by (elim disjE exE)
     (auto simp add: evaluate_contrast_def calculate_contrast_ratio_def Let_def)

lemma slice_ok_simps:
  "slice_ok [] = False" "slice_ok [a] = is_hex a"
  "slice_ok [a, b] = ((is_hex a \<and> is_hex b)
                 \<or> ((a = CHR ''-'' \<or> a = CHR ''+'' \<or> int_space a) \<and> is_hex b)
                 \<or> (is_hex a \<and> int_space b))"
  "slice_ok (a # b # c # r) = False"
  by (simp_all add: slice_ok_def)

lemma short_not_accepted:
  assumes "length (dropWhile (\<lambda>c. c = CHR ''#'') s) < 5"
  shows "\<not> accepted s"
proof -
  from assms have "drop 4 (dropWhile (\<lambda>c. c = CHR ''#'') s) = []" by simp
  then have "\<not> slice_ok (take 2 (drop 4 (dropWhile (\<lambda>c. c = CHR ''#'') s)))"
    by (simp add: slice_ok_simps(1))
  then show ?thesis by (simp add: accepted_def Let_def)
qed

lemma slice_ok_chars:
  assumes "slice_ok sl"
  shows "\<forall>c\<in>set sl. is_hex c \<or> int_space c \<or> c = CHR ''-'' \<or> c = CHR ''+''"
proof (cases sl)
  case Nil
  then show ?thesis by simp
next
  case (Cons a r)
  note sl = this
  show ?thesis
  proof (cases r)
    case Nil
    then show ?thesis using assms sl by (simp add: slice_ok_simps(2))
  next
    case (Cons b r')
    note r = this
    show ?thesis
    proof (cases r')
      case Nil
      then show ?thesis using assms sl r unfolding sl r Nil slice_ok_simps(3) by auto
    next
      case (Cons c r'')
      then show ?thesis using assms sl r by (simp add: slice_ok_simps(4))
    qed
  qed
qed

lemma take_six: "take 6 d = take 2 d @ take 2 (drop 2 d) @ take 2 (drop 4 d)"
proof -
  have "take 6 d = take (2 + 4) d" by simp
  also have "\<dots> = take 2 d @ take 4 (drop 2 d)" by (rule take_add)
  also have "take 4 (drop 2 d) = take (2 + 2) (drop 2 d)" by simp
  also have "\<dots> = take 2 (drop 2 d) @ take 2 (drop 2 (drop 2 d))" by (rule take_add)
  finally show ?thesis by simp
qed

lemma foreign_char_not_accepted:
  assumes "c \<in> set (take 6 (dropWhile (\<lambda>c. c = CHR ''#'') s))"
      and "\<not> is_hex c" and "\<not> int_space c" and "c \<noteq> CHR ''-''" and "c \<noteq> CHR ''+''"
  shows "\<not> accepted s"
proof
  assume acc: "accepted s"
  define d where "d = dropWhile (\<lambda>c. c = CHR ''#'') s"
  from acc have "slice_ok (take 2 d)" "slice_ok (take 2 (drop 2 d))" "slice_ok (take 2 (drop 4 d))"
    by (simp_all add: accepted_def Let_def d_def)
  then have "\<forall>c\<in>set (take 2 d @ take 2 (drop 2 d) @ take 2 (drop 4 d)).
               is_hex c \<or> int_space c \<or> c = CHR ''-'' \<or> c = CHR ''+''"
    using slice_ok_chars by (metis Un_iff set_append)
  then have "\<forall>c\<in>set (take 6 d). is_hex c \<or> int_space c \<or> c = CHR ''-'' \<or> c = CHR ''+''"
    unfolding take_six [of d] .
  with assms show False unfolding d_def by blast
qed

lemma hex_val_le: "is_hex c \<Longrightarrow> hex_val c \<le> 15"
  by (auto simp add: is_hex_def hex_val_def Let_def)

lemma int16_one_val: "is_hex a \<Longrightarrow> int16 [a] = Inr (int (hex_val a))"
  using is_hex_not_special [of a] by (simp add: int16_def Let_def)

lemma int16_space_hex_val: "int_space a \<Longrightarrow> is_hex b \<Longrightarrow> int16 [a, b] = Inr (int (hex_val b))"
  using is_hex_not_special [of b] int_space_not_special [of a]
  by (simp add: int16_def Let_def)

lemma int16_hex_space_val: "is_hex a \<Longrightarrow> int_space b \<Longrightarrow> int16 [a, b] = Inr (int (hex_val a))"
  using is_hex_not_special [of a] int_space_not_special [of b]
  by (simp add: int16_def Let_def)

lemma int16_minus_hex_val: "is_hex b \<Longrightarrow> int16 [CHR ''-'', b] = Inr (- int (hex_val b))"
  using is_hex_not_special [of b]
  by (simp add: int16_def Let_def)

lemma int16_plus_hex_val: "is_hex b \<Longrightarrow> int16 [CHR ''+'', b] = Inr (int (hex_val b))"
  using is_hex_not_special [of b]
  by (simp add: int16_def Let_def)

lemma int16_lower:
  assumes "length sl \<le> 2" and "int16 sl = Inr v"
  shows "- 15 \<le> v"
proof -
  from assms have ok: "slice_ok sl" using int16_slice [of sl] by blast
  show ?thesis
  proof (cases sl)
    case Nil
    then show ?thesis using ok by (simp add: slice_ok_simps(1))
  next
    case (Cons a r)
    note sl = this
    show ?thesis
    proof (cases r)
      case Nil
      then have "is_hex a" using ok sl by (simp add: slice_ok_simps(2))
      then show ?thesis using int16_one_val [of a] assms(2) sl Nil by simp
    next
      case (Cons b r')
      with assms(1) sl have r': "r' = []" by simp
      then have s2: "sl = [a, b]" using sl Cons by simp
      from ok have alt: "(is_hex a \<and> is_hex b)
                 \<or> ((a = CHR ''-'' \<or> a = CHR ''+'' \<or> int_space a) \<and> is_hex b)
                 \<or> (is_hex a \<and> int_space b)"
        unfolding s2 slice_ok_simps(3) .
      have v: "int16 [a, b] = Inr v" using assms(2) s2 by simp
      from alt show ?thesis
      proof (elim disjE conjE)
        assume "is_hex a" "is_hex b"
        then show ?thesis using int16_two_hex [of a b] v by (simp add: channel_def)
      next
        assume "a = CHR ''-''" "is_hex b"
        then show ?thesis using int16_minus_hex_val [of b] v hex_val_le [of b] by simp
      next
        assume "a = CHR ''+''" "is_hex b"
        then show ?thesis using int16_plus_hex_val [of b] v by simp
      next
        assume "int_space a" "is_hex b"
        then show ?thesis using int16_space_hex_val [of a b] v by simp
      next
        assume "is_hex a" "int_space b"
        then show ?thesis using int16_hex_space_val [of a b] v by simp
      qed
    qed
  qed
qed

lemma hex_to_rgb_lower:
  assumes "hex_to_rgb s = Inr (r, g, b)"
  shows "- 15 \<le> r \<and> - 15 \<le> g \<and> - 15 \<le> b"
proof -
  define d where "d = dropWhile (\<lambda>c. c = CHR ''#'') s"
  from assms have "int16 (take 2 d) = Inr r \<and> int16 (take 2 (drop 2 d)) = Inr g
                   \<and> int16 (take 2 (drop 4 d)) = Inr b"
    unfolding hex_to_rgb_def Let_def d_def [symmetric]
    by (cases "int16 (take 2 d)"; cases "int16 (take 2 (drop 2 d))"; cases "int16 (take 2 (drop 4 d))")
       simp_all
  then show ?thesis
    using int16_lower [of "take 2 d" r] int16_lower [of "take 2 (drop 2 d)" g]
          int16_lower [of "take 2 (drop 4 d)" b] by simp
qed

lemma linearize_lower:
  assumes "- 15 \<le> (v::int)"
  shows "- (1 / 100) \<le> linearize (of_int v)"
proof (cases "real_of_int v / 255 \<le> 0.03928")
  case True
  have "- 15 \<le> real_of_int v" using assms by linarith
  then have "- 15 / 255 / 12.92 \<le> real_of_int v / 255 / 12.92"
    by (simp add: divide_right_mono)
  moreover have "- (1 / 100) \<le> (- 15 / 255 / 12.92 :: real)" by simp
  ultimately show ?thesis using True by (simp add: linearize_def Let_def)
next
  case False
  then have "0 \<le> linearize (of_int v)" by (simp add: linearize_def Let_def)
  then show ?thesis by linarith
qed

lemma luminance_lower:
  assumes "- 15 \<le> r" and "- 15 \<le> g" and "- 15 \<le> b"
  shows "- (1 / 100) \<le> rgb_to_relative_luminance r g b"
proof -
  have a: "- (1 / 100) \<le> linearize (of_int r)" using assms(1) by (rule linearize_lower)
  have b: "- (1 / 100) \<le> linearize (of_int g)" using assms(2) by (rule linearize_lower)
  have c: "- (1 / 100) \<le> linearize (of_int b)" using assms(3) by (rule linearize_lower)
  show ?thesis unfolding rgb_to_relative_luminance_def using a b c by simp
qed

text \<open>
  A parsed channel is at least \<open>-15\<close> (a slice \<open>-f\<close>), so the darker luminance plus 0.05
  is positive: the division of \<open>calculate_contrast_ratio\<close> never divides by zero, and
  parsing is the only place where \<open>evaluate_contrast\<close> can fail.
\<close>

lemma contrast_denominator_positive:
  assumes "hex_to_rgb color1 = Inr (r1, g1, b1)" and "hex_to_rgb color2 = Inr (r2, g2, b2)"
  shows "0 < min (rgb_to_relative_luminance r1 g1 b1) (rgb_to_relative_luminance r2 g2 b2) + 0.05"
  using luminance_lower [of r1 g1 b1] luminance_lower [of r2 g2 b2]
        hex_to_rgb_lower [OF assms(1)] hex_to_rgb_lower [OF assms(2)]
  by simp

lemma six_hex_digits_accepted: "six_hex_digits s \<Longrightarrow> accepted s"
  using hex_to_rgb_prefix [OF six_hex_digits_prefix, of s] hex_to_rgb_iff [of s]
  by (simp add: Let_def)

text \<open>
  Claim C8, where it fails: \<open>1234567\<close> has seven digits, so it is not a six-digit color,
  and it is parsed all the same, as \<open>(0x12, 0x34, 0x56)\<close>; \<open>evaluate_contrast\<close> returns
  a result for it.
\<close>

theorem hex_to_rgb_long_input_counterexample:
  "\<not> six_hex_digits ''1234567''
   \<and> hex_to_rgb ''1234567'' = Inr (18, 52, 86)
   \<and> \<not> isl (evaluate_contrast ''1234567'' ''#000000'' 16 False)"
proof -
  have n: "\<not> six_hex_digits ''1234567''" by (simp add: six_hex_digits_def)
  have p: "six_hex_prefix ''1234567''" by (simp add: six_hex_prefix_def is_hex_def)
  have q: "six_hex_prefix ''#000000''" by (simp add: six_hex_prefix_def is_hex_def)
  have v: "hex_to_rgb ''1234567'' = Inr (18, 52, 86)"
    using hex_to_rgb_prefix [OF p] by (simp add: channel_def hex_val_def)
  have "\<exists>rgb. hex_to_rgb ''#000000'' = Inr rgb"
    using hex_to_rgb_prefix [OF q] by (simp add: Let_def)
  then have "accepted ''1234567'' \<and> accepted ''#000000''"
    using v hex_to_rgb_iff [of "''1234567''"] hex_to_rgb_iff [of "''#000000''"] by blast
  then obtain res where "evaluate_contrast ''1234567'' ''#000000'' 16 False = Inr res"
    using evaluate_contrast_iff [of "''1234567''" "''#000000''" 16 False] by blast
  then have "\<not> isl (evaluate_contrast ''1234567'' ''#000000'' 16 False)" by simp
  with n v show ?thesis by blast
qed

text \<open>
  Claim C8, amended. \<open>evaluate_contrast\<close> fails, and then with the parsing error
  \<open>ValueError\<close>, exactly when one of its two colors has, once its leading \<open>#\<close>s are
  stripped, a slice \<open>[0:2]\<close>, \<open>[2:4]\<close> or \<open>[4:6]\<close> that \<open>int(s, 16)\<close> does not read.
  Every well-formed six-digit color is read; a string with fewer than five characters
  after the \<open>#\<close>s is not. Among the strings of characters below U+0100, a slice is
  read exactly when it is one or two hexadecimal digits, or one such digit after a sign
  or after whitespace that \<open>int\<close> skips, or before such whitespace; so a string is not
  read when one of its first six characters is neither a hexadecimal digit, a sign nor
  such whitespace.
\<close>

theorem evaluate_contrast_parsing:
  "(evaluate_contrast fg bg fsize bold = Inl ValueError \<longleftrightarrow> \<not> (accepted fg \<and> accepted bg))
   \<and> ((\<exists>res. evaluate_contrast fg bg fsize bold = Inr res) \<longleftrightarrow> accepted fg \<and> accepted bg)
   \<and> (six_hex_digits fg \<longrightarrow> accepted fg)
   \<and> (length (dropWhile (\<lambda>c. c = CHR ''#'') fg) < 5 \<longrightarrow> \<not> accepted fg)
   \<and> (\<forall>c\<in>set (take 6 (dropWhile (\<lambda>c. c = CHR ''#'') fg)).
         \<not> is_hex c \<and> \<not> int_space c \<and> c \<noteq> CHR ''-'' \<and> c \<noteq> CHR ''+'' \<longrightarrow> \<not> accepted fg)"
proof -
  have a: "(\<exists>res. evaluate_contrast fg bg fsize bold = Inr res) \<longleftrightarrow> accepted fg \<and> accepted bg"
    by (rule evaluate_contrast_iff)
  have b: "evaluate_contrast fg bg fsize bold = Inl ValueError \<longleftrightarrow> \<not> (accepted fg \<and> accepted bg)"
    using a evaluate_contrast_cases [of fg bg fsize bold] by auto
  have c: "six_hex_digits fg \<longrightarrow> accepted fg" using six_hex_digits_accepted by blast
  have d: "length (dropWhile (\<lambda>c. c = CHR ''#'') fg) < 5 \<longrightarrow> \<not> accepted fg"
    using short_not_accepted by blast
  have e: "\<forall>c\<in>set (take 6 (dropWhile (\<lambda>c. c = CHR ''#'') fg)).
         \<not> is_hex c \<and> \<not> int_space c \<and> c \<noteq> CHR ''-'' \<and> c \<noteq> CHR ''+'' \<longrightarrow> \<not> accepted fg"
    using foreign_char_not_accepted [of _ fg] by blast
  from a b c d e show ?thesis by blast
qed

theorem evaluate_contrast_parsing_witness:
  "six_hex_digits ''#FAFAFA'' \<and> six_hex_digits ''#FFFFFF''
   \<and> (\<exists>res. evaluate_contrast ''#FAFAFA'' ''#FFFFFF'' 16 False = Inr res)
   \<and> (\<exists>res. evaluate_contrast ''+1+2+3'' ''#FFFFFF'' 16 False = Inr res)
   \<and> evaluate_contrast ''#FFF'' ''#FFFFFF'' 16 False = Inl ValueError
   \<and> evaluate_contrast ''#GGGGGG'' ''#FFFFFF'' 16 False = Inl ValueError
   \<and> evaluate_contrast [CHR ''1'', CHR 0x1F, CHR ''0'', CHR ''0'', CHR ''0'', CHR ''0'']
         ''#FFFFFF'' 16 False = Inl ValueError"
proof -
  have a: "six_hex_digits ''#FAFAFA''" by (simp add: six_hex_digits_def is_hex_def)
  have b: "six_hex_digits ''#FFFFFF''" by (simp add: six_hex_digits_def is_hex_def)
  have p: "accepted ''+1+2+3''"
    by (simp add: accepted_def slice_ok_simps is_hex_def int_space_def)
  have s: "length (dropWhile (\<lambda>c. c = CHR ''#'') ''#FFF'') < 5" by simp
  have g: "CHR ''G'' \<in> set (take 6 (dropWhile (\<lambda>c. c = CHR ''#'') ''#GGGGGG''))" by simp
  have g': "\<not> is_hex (CHR ''G'') \<and> \<not> int_space (CHR ''G'') \<and> CHR ''G'' \<noteq> CHR ''-'' \<and> CHR ''G'' \<noteq> CHR ''+''"
    by (simp add: is_hex_def int_space_def)
  have u: "CHR 0x1F \<in> set (take 6 (dropWhile (\<lambda>c. c = CHR ''#'')
                               [CHR ''1'', CHR 0x1F, CHR ''0'', CHR ''0'', CHR ''0'', CHR ''0'']))"
    by simp
  have u': "\<not> is_hex (CHR 0x1F) \<and> \<not> int_space (CHR 0x1F) \<and> CHR 0x1F \<noteq> CHR ''-'' \<and> CHR 0x1F \<noteq> CHR ''+''"
    by (simp add: is_hex_def int_space_def)
  have fa: "accepted ''#FAFAFA''"
    using evaluate_contrast_parsing [of "''#FAFAFA''" "''#FFFFFF''" 16 False] a by (elim conjE) (rule mp)
  have ff: "accepted ''#FFFFFF''"
    using evaluate_contrast_parsing [of "''#FFFFFF''" "''#FFFFFF''" 16 False] b by (elim conjE) (rule mp)
  have r1: "\<exists>res. evaluate_contrast ''#FAFAFA'' ''#FFFFFF'' 16 False = Inr res"
    using evaluate_contrast_parsing [of "''#FAFAFA''" "''#FFFFFF''" 16 False] fa ff
    by (elim conjE) (simp only: simp_thms)
  have r2: "\<exists>res. evaluate_contrast ''+1+2+3'' ''#FFFFFF'' 16 False = Inr res"
    using evaluate_contrast_parsing [of "''+1+2+3''" "''#FFFFFF''" 16 False] p ff
    by (elim conjE) (simp only: simp_thms)
  have n3: "\<not> accepted ''#FFF''"
    using evaluate_contrast_parsing [of "''#FFF''" "''#FFFFFF''" 16 False] s by (elim conjE) (rule mp)
  have r3: "evaluate_contrast ''#FFF'' ''#FFFFFF'' 16 False = Inl ValueError"
    using evaluate_contrast_parsing [of "''#FFF''" "''#FFFFFF''" 16 False] n3
    by (elim conjE) (simp only: simp_thms)
  have n4: "\<not> accepted ''#GGGGGG''"
  proof -
    from evaluate_contrast_parsing [of "''#GGGGGG''" "''#FFFFFF''" 16 False]
    have "\<forall>c\<in>set (take 6 (dropWhile (\<lambda>c. c = CHR ''#'') ''#GGGGGG'')).
            \<not> is_hex c \<and> \<not> int_space c \<and> c \<noteq> CHR ''-'' \<and> c \<noteq> CHR ''+'' \<longrightarrow> \<not> accepted ''#GGGGGG''"
      by (elim conjE)
    from bspec [OF this g] g' show ?thesis by (rule mp)
  qed
  have r4: "evaluate_contrast ''#GGGGGG'' ''#FFFFFF'' 16 False = Inl ValueError"
    using evaluate_contrast_parsing [of "''#GGGGGG''" "''#FFFFFF''" 16 False] n4
    by (elim conjE) (simp only: simp_thms)
  let ?u = "[CHR ''1'', CHR 0x1F, CHR ''0'', CHR ''0'', CHR ''0'', CHR ''0'']"
  have n5: "\<not> accepted ?u"
  proof -
    from evaluate_contrast_parsing [of ?u "''#FFFFFF''" 16 False]
    have "\<forall>c\<in>set (take 6 (dropWhile (\<lambda>c. c = CHR ''#'') ?u)).
            \<not> is_hex c \<and> \<not> int_space c \<and> c \<noteq> CHR ''-'' \<and> c \<noteq> CHR ''+'' \<longrightarrow> \<not> accepted ?u"
      by (elim conjE)
    from bspec [OF this u] u' show ?thesis by (rule mp)
  qed
  have r5: "evaluate_contrast ?u ''#FFFFFF'' 16 False = Inl ValueError"
    using evaluate_contrast_parsing [of ?u "''#FFFFFF''" 16 False] n5
    by (elim conjE) (simp only: simp_thms)
  from a b r1 r2 r3 r4 r5 show ?thesis by (intro conjI)
qed

end
